theory Spec2Isabelle
  imports Complex_Main
begin

section \<open>JavaScript values used by the AI layer\<close>

text \<open>
  A JavaScript string is a sequence of UTF-16 code units. The sources use characters
  outside ASCII (the bullet U+2022, emoji, arrows), so a string is modelled as the list
  of its code units, each a natural number; \<open>js\<close> embeds an ASCII literal.
\<close>

type_synonym jsstring = "nat list"

definition js :: "string \<Rightarrow> jsstring" where
  "js s = map of_char s"

text \<open>Thrown values. Every value thrown in the modelled sources is an Error object;
  the constructor records its class, the argument its message.\<close>

datatype jserror = Error jsstring | TypeError jsstring | ReferenceError jsstring

fun error_message :: "jserror \<Rightarrow> jsstring" where
  "error_message (Error m) = m"
| "error_message (TypeError m) = m"
| "error_message (ReferenceError m) = m"

text \<open>ECMAScript WhiteSpace and LineTerminator code units: what \<open>String.prototype.trim\<close>
  removes and what \<open>\s\<close> matches in a regular expression.\<close>

definition isWhiteSpace :: "nat \<Rightarrow> bool" where
  "isWhiteSpace c \<longleftrightarrow>
     c = 9 \<or> c = 10 \<or> c = 11 \<or> c = 12 \<or> c = 13 \<or> c = 32 \<or> c = 160 \<or> c = 5760 \<or>
     (8192 \<le> c \<and> c \<le> 8202) \<or> c = 8232 \<or> c = 8233 \<or> c = 8239 \<or> c = 8287 \<or>
     c = 12288 \<or> c = 65279"

definition js_trimStart :: "jsstring \<Rightarrow> jsstring" where
  "js_trimStart s = dropWhile isWhiteSpace s"

definition js_trim :: "jsstring \<Rightarrow> jsstring" where
  "js_trim s = rev (dropWhile isWhiteSpace (rev (dropWhile isWhiteSpace s)))"

fun js_startsWith :: "jsstring \<Rightarrow> jsstring \<Rightarrow> bool" where
  "js_startsWith s [] = True"
| "js_startsWith [] (p # ps) = False"
| "js_startsWith (c # cs) (p # ps) = (c = p \<and> js_startsWith cs ps)"

fun js_includes :: "jsstring \<Rightarrow> jsstring \<Rightarrow> bool" where
  "js_includes [] sub = (sub = [])"
| "js_includes (c # cs) sub = (js_startsWith (c # cs) sub \<or> js_includes cs sub)"

text \<open>\<open>toLowerCase\<close>: the ASCII capitals, and the two other code units whose lower case
  contains an ASCII letter (the Kelvin sign U+212A becomes k, U+0130 becomes i followed by
  U+0307). Every other code unit is left as it is: its lower case has no ASCII letter, so
  whether the result includes an ASCII phrase or equals an ASCII name does not depend on
  it.\<close>

definition lowerUnit :: "nat \<Rightarrow> jsstring" where
  "lowerUnit c =
     (if 65 \<le> c \<and> c \<le> 90 then [c + 32]
      else if c = 0x212A then [107]
      else if c = 0x130 then [105, 0x307]
      else [c])"

definition js_toLowerCase :: "jsstring \<Rightarrow> jsstring" where
  "js_toLowerCase s = concat (map lowerUnit s)"


text \<open>The decimal rendering of an integer inside a template literal (for integers below
  10^21, where JavaScript switches to exponent notation).\<close>

fun digitsOf :: "nat \<Rightarrow> jsstring" where
  "digitsOf n = (if n < 10 then [48 + n] else digitsOf (n div 10) @ [48 + n mod 10])"

declare digitsOf.simps [simp del]

definition numToString :: "int \<Rightarrow> jsstring" where
  "numToString i = (if i < 0 then 45 # digitsOf (nat (- i)) else digitsOf (nat i))"

section \<open>Overthinking guard (overthinkingGuard module)\<close>

text \<open>
  The module imports \<open>callClaude\<close> from \<open>./claudeAPI\<close>, which is a network call: it is a
  parameter here, a function from the prompt and the token bound to the outcome of the call.
  The outcome of an awaited call is \<open>Some (Inr text)\<close> when its promise resolves,
  \<open>Some (Inl err)\<close> when it rejects and \<open>None\<close> when it never settles; an \<open>async\<close>
  function that awaits a call that never settles never settles itself.
  \<open>new Date().toISOString()\<close> is the parameter \<open>now\<close>.
\<close>

type_synonym ai_call = "jsstring \<Rightarrow> nat \<Rightarrow> (jserror + jsstring) option"

record og_result =
  og_success :: bool
  og_triggered :: bool
  og_severity :: "jsstring option"
  og_editCount :: "int option"
  og_daysInactive :: "int option"
  og_message :: "jsstring option"
  og_timestamp :: "jsstring option"
  og_fallbackMode :: "bool option"

definition overthinkingPrompt :: "int \<Rightarrow> jsstring \<Rightarrow> jsstring" where
  \<open>overthinkingPrompt editCount severity =
     js ''You are a productivity coach. A student has edited their weekly plan '' @
     numToString editCount @ js '' times.'' @ [10, 10] @
     js ''This is a sign of overthinking and planning paralysis.'' @ [10, 10] @
     js ''Generate a firm but friendly one-sentence message to:'' @ [10] @
     js ''1. Acknowledge they've planned enough'' @ [10] @
     js ''2. Push them to start executing'' @ [10] @
     js ''3. '' @ (if severity = js ''severe'' then js ''Be very direct and motivating''
                  else js ''Be gentle but clear'') @ [10, 10] @
     js ''Keep it under 20 words. Make it memorable and actionable.'' @ [10, 10] @
     js ''Examples:'' @ [10] @
     js ''- "Planning band karo, kaam shuru karo. Execution beats perfection."'' @ [10] @
     js ''- "You've refined this '' @ numToString editCount @
     js '' times. Time to DO, not just plan."'' @ [10] @
     js ''- "Stop tweaking. Start working. Progress > Perfect plans."'' @ [10, 10] @
     js ''Your message:''\<close>

definition generateAIWarning ::
  "ai_call \<Rightarrow> int \<Rightarrow> jsstring \<Rightarrow> (jserror + jsstring) option" where
  "generateAIWarning callClaude editCount severity =
     (case callClaude (overthinkingPrompt editCount severity) 100 of
        None \<Rightarrow> None
      | Some (Inl err) \<Rightarrow> Some (Inl err)
      | Some (Inr aiResponse) \<Rightarrow>
          Some (Inr (filter (\<lambda>c. c \<noteq> 39 \<and> c \<noteq> 34) (js_trim aiResponse))))"

definition msgStopPlanning :: jsstring where
  "msgStopPlanning =
     [0xD83D, 0xDED1] @ js '' STOP PLANNING! You've edited this 10+ times. Start executing NOW.''"

definition msgTooMuchPlanning :: jsstring where
  "msgTooMuchPlanning =
     [0x26A0, 0xFE0F] @ js '' Too much planning. Time to take action. Execution beats perfection.''"

definition msgPlannedEnough :: jsstring where
  "msgPlannedEnough =
     [0xD83D, 0xDCAD] @ js '' You've planned enough. Start working on your first task right now.''"

definition msgPlanLooksGood :: jsstring where
  "msgPlanLooksGood = [0xD83D, 0xDCDD] @ js '' Your plan looks good. Time to execute!''"

definition getRuleBasedWarning :: "int \<Rightarrow> jsstring" where
  "getRuleBasedWarning editCount =
     (if editCount \<ge> 10 then msgStopPlanning
      else if editCount \<ge> 7 then msgTooMuchPlanning
      else if editCount \<ge> 5 then msgPlannedEnough
      else msgPlanLooksGood)"

definition getInactivityMessage :: "int \<Rightarrow> jsstring" where
  "getInactivityMessage daysInactive =
     (if daysInactive \<ge> 7 then
        [0x23F0] @ js '' It's been a week! Your plan is waiting. Start with the easiest task today.''
      else if daysInactive \<ge> 5 then
        [0x23F0] @ js '' 5 days without action. Don't let the plan gather dust. Begin now!''
      else
        [0x23F0] @ js '' 3+ days inactive. Even 10 minutes of work keeps momentum alive.'')"

text \<open>The body of the \<open>try\<close> block of \<open>checkOverthinking\<close>: \<open>Some (Inl err)\<close> is an
  exception that reaches the \<open>catch\<close> clause. \<open>message\<close> and \<open>severity\<close> start undefined
  (\<open>None\<close>).\<close>

definition checkOverthinking_try ::
  "ai_call \<Rightarrow> jsstring \<Rightarrow> int \<Rightarrow> int \<Rightarrow> (jserror + og_result) option" where
  "checkOverthinking_try callClaude now editCount daysInactive =
     (let isOverthinking = editCount \<ge> 5;
          isSevereOverthinking = editCount \<ge> 10;
          longInactive = daysInactive \<ge> 3
      in
        if \<not> isOverthinking \<and> \<not> longInactive then
          Some (Inr \<lparr>og_success = True, og_triggered = False, og_severity = None,
               og_editCount = None, og_daysInactive = None, og_message = None,
               og_timestamp = None, og_fallbackMode = None\<rparr>)
        else
          (case
             (if isSevereOverthinking then
                (case generateAIWarning callClaude editCount (js ''severe'') of
                   None \<Rightarrow> None
                 | Some (Inl err) \<Rightarrow> Some (Inl err)
                 | Some (Inr m) \<Rightarrow> Some (Inr (Some m, Some (js ''severe''))))
              else if isOverthinking then
                (case generateAIWarning callClaude editCount (js ''moderate'') of
                   None \<Rightarrow> None
                 | Some (Inl err) \<Rightarrow> Some (Inl err)
                 | Some (Inr m) \<Rightarrow> Some (Inr (Some m, Some (js ''moderate''))))
              else if longInactive then
                Some (Inr (Some (getInactivityMessage daysInactive), Some (js ''inactive'')))
              else Some (Inr (None, None)))
           of
             None \<Rightarrow> None
           | Some (Inl err) \<Rightarrow> Some (Inl err)
           | Some (Inr (message, severity)) \<Rightarrow>
               Some (Inr \<lparr>og_success = True, og_triggered = True, og_severity = severity,
                    og_editCount = Some editCount, og_daysInactive = Some daysInactive,
                    og_message = message, og_timestamp = Some now,
                    og_fallbackMode = None\<rparr>)))"

text \<open>\<open>checkOverthinking\<close>: the \<open>catch\<close> clause turns every exception of the body into the
  rule-based fallback object. The result is \<open>Some (Inr r)\<close> when the promise resolves with
  \<open>r\<close>, \<open>Some (Inl err)\<close> when it rejects and \<open>None\<close> when it never settles.\<close>

definition checkOverthinking ::
  "ai_call \<Rightarrow> jsstring \<Rightarrow> int \<Rightarrow> int \<Rightarrow> (jserror + og_result) option" where
  "checkOverthinking callClaude now editCount daysInactive =
     (case checkOverthinking_try callClaude now editCount daysInactive of
        None \<Rightarrow> None
      | Some (Inr r) \<Rightarrow> Some (Inr r)
      | Some (Inl err) \<Rightarrow>
          Some (Inr \<lparr>og_success = True, og_triggered = (editCount \<ge> 5),
               og_severity = Some (if editCount \<ge> 10 then js ''severe'' else js ''moderate''),
               og_editCount = None, og_daysInactive = None,
               og_message = Some (getRuleBasedWarning editCount),
               og_timestamp = None, og_fallbackMode = Some True\<rparr>))"

definition shouldWarnUser :: "int \<Rightarrow> int \<Rightarrow> bool" where
  "shouldWarnUser editCount daysInactive \<longleftrightarrow> editCount \<ge> 5 \<or> daysInactive \<ge> 3"

definition getSeverityLevel :: "int \<Rightarrow> int \<Rightarrow> jsstring" where
  "getSeverityLevel editCount daysInactive =
     (if editCount \<ge> 10 then js ''critical''
      else if editCount \<ge> 7 \<or> daysInactive \<ge> 7 then js ''severe''
      else if editCount \<ge> 5 \<or> daysInactive \<ge> 3 then js ''moderate''
      else js ''none'')"

text \<open>The specification's ordered severity scale, none < moderate < severe < critical:
  the position of a value on the scale, \<open>None\<close> for a value outside it.\<close>

definition spec_severityRank :: "jsstring \<Rightarrow> nat option" where
  "spec_severityRank s =
     (if s = js ''none'' then Some 0
      else if s = js ''moderate'' then Some 1
      else if s = js ''severe'' then Some 2
      else if s = js ''critical'' then Some 3
      else None)"

section \<open>Smart task downgrade (taskDowngrade module)\<close>

record dg_suggestions =
  ruleBased :: jsstring
  aiGenerated :: "jsstring option"

record dg_result =
  dg_success :: bool
  dg_originalTask :: jsstring
  dg_difficulty :: "jsstring option"
  dg_missedCount :: "int option"
  dg_suggestions :: dg_suggestions
  dg_fallbackMode :: "bool option"
  dg_message :: jsstring
  dg_timestamp :: jsstring

definition getRuleBasedDowngrade :: "jsstring \<Rightarrow> jsstring \<Rightarrow> jsstring" where
  "getRuleBasedDowngrade taskName difficulty =
     (let taskLower = js_toLowerCase taskName in
      if js_includes taskLower (js ''gym'') \<or> js_includes taskLower (js ''workout'') then
        (if difficulty = js ''Hard'' then js ''20-minute light cardio or stretching''
         else if difficulty = js ''Medium'' then js ''10-minute walk or yoga''
         else js ''5-minute stretching or mobility exercises'')
      else if js_includes taskLower (js ''study'') \<or> js_includes taskLower (js ''learn'') \<or>
              js_includes taskLower (js ''read'') then
        (if difficulty = js ''Hard'' then js ''Review notes for 15 minutes''
         else if difficulty = js ''Medium'' then js ''Skim important topics for 10 minutes''
         else js ''Quick 5-minute concept recap'')
      else if js_includes taskLower (js ''code'') \<or> js_includes taskLower (js ''program'') \<or>
              js_includes taskLower (js ''debug'') then
        (if difficulty = js ''Hard'' then js ''Read documentation or watch tutorial for 15 minutes''
         else if difficulty = js ''Medium'' then js ''Review code concepts for 10 minutes''
         else js ''Practice one small coding problem (5-10 mins)'')
      else if js_includes taskLower (js ''write'') \<or> js_includes taskLower (js ''essay'') \<or>
              js_includes taskLower (js ''report'') then
        (if difficulty = js ''Hard'' then js ''Create outline or bullet points only''
         else if difficulty = js ''Medium'' then js ''Write one paragraph or key points''
         else js ''Brainstorm ideas for 10 minutes'')
      else if js_includes taskLower (js ''practice'') \<or> js_includes taskLower (js ''revision'') then
        (if difficulty = js ''Hard'' then js ''Complete 3 easy problems''
         else if difficulty = js ''Medium'' then js ''Review solved examples''
         else js ''Quick concept revision (10 mins)'')
      else if difficulty = js ''Hard'' then js ''Reduce scope to 20-30 minutes of easier work''
      else if difficulty = js ''Medium'' then js ''Reduce to 15 minutes of simplified version''
      else js ''Spend just 10 minutes on the easiest part'')"

definition downgradePrompt :: "jsstring \<Rightarrow> jsstring \<Rightarrow> int \<Rightarrow> jsstring" where
  \<open>downgradePrompt taskName difficulty missedCount =
     js ''You are a productivity assistant helping a student who keeps missing tasks.'' @ [10, 10] @
     js ''Original Task: "'' @ taskName @ js ''"'' @ [10] @
     js ''Difficulty: '' @ difficulty @ [10] @
     js ''Times Missed: '' @ numToString missedCount @ [10, 10] @
     js ''The student needs a lighter, easier alternative to this task so they don't break their habit completely.'' @ [10, 10] @
     js ''Provide ONE specific, actionable suggestion that:'' @ [10] @
     js ''- Takes 10-20 minutes maximum'' @ [10] @
     js ''- Is significantly easier than the original'' @ [10] @
     js ''- Maintains some progress toward the goal'' @ [10] @
     js ''- Feels achievable when motivation is low'' @ [10, 10] @
     js ''Format: Just the suggestion, 1-2 sentences maximum.'' @ [10, 10] @
     js ''Example good suggestions:'' @ [10] @
     js ''- Instead of "Gym workout" '' @ [0x2192] @ js '' "10-minute walk or light stretching"'' @ [10] @
     js ''- Instead of "Study 2 hours" '' @ [0x2192] @ js '' "Review flashcards for 15 minutes"'' @ [10] @
     js ''- Instead of "Complete assignment" '' @ [0x2192] @ js '' "Work on outline for 20 minutes"'' @ [10, 10] @
     js ''Your suggestion:''\<close>

text \<open>
  \<open>getAIDowngrade\<close> calls \<open>callClaude(prompt, 200)\<close>. The module itself imports only
  \<open>callAI\<close> and \<open>handleAIError\<close>, so the callee is whatever the name \<open>callClaude\<close>
  denotes at run time: it is a parameter. Where no such global exists the call raises a
  ReferenceError, which is the instance \<open>callClaude_unbound\<close>.
\<close>

definition callClaude_unbound :: ai_call where
  "callClaude_unbound prompt maxTokens =
     Some (Inl (ReferenceError (js ''callClaude is not defined'')))"

definition getAIDowngrade ::
  "ai_call \<Rightarrow> jsstring \<Rightarrow> jsstring \<Rightarrow> int \<Rightarrow> (jserror + jsstring) option" where
  "getAIDowngrade callClaude taskName difficulty missedCount =
     (case callClaude (downgradePrompt taskName difficulty missedCount) 200 of
        None \<Rightarrow> None
      | Some (Inl err) \<Rightarrow> Some (Inl err)
      | Some (Inr aiResponse) \<Rightarrow> Some (Inr (js_trim aiResponse)))"

text \<open>The \<open>try\<close> block of \<open>suggestTaskDowngrade\<close>.\<close>

definition suggestTaskDowngrade_try ::
  "ai_call \<Rightarrow> jsstring \<Rightarrow> jsstring \<Rightarrow> jsstring \<Rightarrow> int \<Rightarrow> (jserror + dg_result) option" where
  \<open>suggestTaskDowngrade_try callClaude now taskName difficulty missedCount =
     (let ruleBasedSuggestion = getRuleBasedDowngrade taskName difficulty in
      case getAIDowngrade callClaude taskName difficulty missedCount of
        None \<Rightarrow> None
      | Some (Inl err) \<Rightarrow> Some (Inl err)
      | Some (Inr aiSuggestion) \<Rightarrow>
          Some (Inr \<lparr>dg_success = True, dg_originalTask = taskName,
               dg_difficulty = Some difficulty, dg_missedCount = Some missedCount,
               dg_suggestions = \<lparr>ruleBased = ruleBasedSuggestion, aiGenerated = Some aiSuggestion\<rparr>,
               dg_fallbackMode = None,
               dg_message = js ''You've missed "'' @ taskName @ js ''" '' @ numToString missedCount @
                 js '' times. Here's an easier alternative to keep momentum:'',
               dg_timestamp = now\<rparr>))\<close>

text \<open>\<open>suggestTaskDowngrade\<close>: the \<open>catch\<close> clause recomputes the rule-based suggestion,
  which cannot throw on a string, and returns it alone.\<close>

definition suggestTaskDowngrade ::
  "ai_call \<Rightarrow> jsstring \<Rightarrow> jsstring \<Rightarrow> jsstring \<Rightarrow> int \<Rightarrow> (jserror + dg_result) option" where
  \<open>suggestTaskDowngrade callClaude now taskName difficulty missedCount =
     (case suggestTaskDowngrade_try callClaude now taskName difficulty missedCount of
        None \<Rightarrow> None
      | Some (Inr r) \<Rightarrow> Some (Inr r)
      | Some (Inl err) \<Rightarrow>
          (let ruleBasedSuggestion = getRuleBasedDowngrade taskName difficulty in
           Some (Inr \<lparr>dg_success = True, dg_originalTask = taskName,
                dg_difficulty = None, dg_missedCount = None,
                dg_suggestions = \<lparr>ruleBased = ruleBasedSuggestion, aiGenerated = None\<rparr>,
                dg_fallbackMode = Some True,
                dg_message = js ''Consider this easier alternative for "'' @ taskName @ js ''":'',
                dg_timestamp = now\<rparr>)))\<close>

definition shouldSuggestDowngrade :: "int \<Rightarrow> jsstring \<Rightarrow> bool" where
  "shouldSuggestDowngrade missedCount difficulty \<longleftrightarrow>
     (difficulty = js ''Hard'' \<and> missedCount \<ge> 2) \<or>
     (difficulty = js ''Medium'' \<and> missedCount \<ge> 3) \<or>
     (difficulty = js ''Easy'' \<and> missedCount \<ge> 4)"

section \<open>Orchestrator (aiAPI module)\<close>

text \<open>
  The process environment is a record of the four variables the module reads. The three
  adapters are network calls: they are parameters, each a function from the prompt and the
  token bound to the outcome of the call (\<open>None\<close> when the call never settles, as
  \<open>callHuggingFace\<close> can). Console output is kept as a trace: one event for each
  "Attempting AI provider" line and one for each "failed" line.
\<close>

record env =
  AI_PROVIDER :: "jsstring option"
  GEMINI_API_KEY :: "jsstring option"
  GROQ_API_KEY :: "jsstring option"
  HUGGINGFACE_API_KEY :: "jsstring option"

text \<open>Truthiness of an environment variable: set and not the empty string.\<close>

definition truthy :: "jsstring option \<Rightarrow> bool" where
  "truthy v = (case v of None \<Rightarrow> False | Some s \<Rightarrow> s \<noteq> [])"

record adapters =
  callGemini :: ai_call
  callGroq :: ai_call
  callHuggingFace_adapter :: ai_call

datatype log_event = Attempting jsstring | Failed jsstring jsstring

definition PROVIDER_ORDER :: "jsstring list" where
  "PROVIDER_ORDER = [js ''gemini'', js ''groq'', js ''huggingface'']"

text \<open>\<open>process.env.AI_PROVIDER?.toLowerCase()\<close>, evaluated once when the module loads.\<close>

definition PRIMARY_PROVIDER :: "env \<Rightarrow> jsstring option" where
  "PRIMARY_PROVIDER e = map_option js_toLowerCase (AI_PROVIDER e)"

text \<open>The provider list that \<open>callAI\<close> builds: the primary first when it is truthy.\<close>

definition providers :: "env \<Rightarrow> jsstring list" where
  "providers e =
     (case PRIMARY_PROVIDER e of
        None \<Rightarrow> PROVIDER_ORDER
      | Some primary \<Rightarrow>
          if primary \<noteq> [] then primary # filter (\<lambda>p. p \<noteq> primary) PROVIDER_ORDER
          else PROVIDER_ORDER)"

text \<open>The \<open>switch\<close> statement of one loop iteration: \<open>Continue\<close> is the \<open>default\<close>
  branch, \<open>Settled (Inl err)\<close> an exception caught by the \<open>catch\<close> of the loop body,
  \<open>Settled (Inr text)\<close> the value returned, \<open>Pending\<close> an adapter call that never
  settles.\<close>

datatype switch_outcome = Continue | Pending | Settled "jserror + jsstring"

definition awaitAdapter :: "(jserror + jsstring) option \<Rightarrow> switch_outcome" where
  "awaitAdapter r = (case r of None \<Rightarrow> Pending | Some v \<Rightarrow> Settled v)"

definition tryProvider ::
  "env \<Rightarrow> adapters \<Rightarrow> jsstring \<Rightarrow> jsstring \<Rightarrow> nat \<Rightarrow> switch_outcome" where
  "tryProvider e ad provider prompt maxTokens =
     (if provider = js ''gemini'' then
        (if \<not> truthy (GEMINI_API_KEY e) then Settled (Inl (Error (js ''Gemini API key missing'')))
         else awaitAdapter (callGemini ad prompt maxTokens))
      else if provider = js ''groq'' then
        (if \<not> truthy (GROQ_API_KEY e) then Settled (Inl (Error (js ''Groq API key missing'')))
         else awaitAdapter (callGroq ad prompt maxTokens))
      else if provider = js ''huggingface'' then
        (if \<not> truthy (HUGGINGFACE_API_KEY e) then
           Settled (Inl (Error (js ''HuggingFace API key missing'')))
         else awaitAdapter (callHuggingFace_adapter ad prompt maxTokens))
      else Continue)"

text \<open>The \<open>for\<close> loop of \<open>callAI\<close> over the remaining providers, and the \<open>throw\<close> after
  it. The result is the console trace and the outcome of the call (\<open>None\<close>: the call is
  still waiting for an adapter).\<close>

fun callAI_loop ::
  "env \<Rightarrow> adapters \<Rightarrow> jsstring \<Rightarrow> nat \<Rightarrow> jsstring list \<Rightarrow> log_event list \<Rightarrow>
   log_event list \<times> (jserror + jsstring) option" where
  "callAI_loop e ad prompt maxTokens [] trace =
     (trace, Some (Inl (Error (js ''All free AI providers are currently unavailable''))))"
| "callAI_loop e ad prompt maxTokens (provider # rest) trace =
     (case tryProvider e ad provider prompt maxTokens of
        Continue \<Rightarrow> callAI_loop e ad prompt maxTokens rest (trace @ [Attempting provider])
      | Pending \<Rightarrow> (trace @ [Attempting provider], None)
      | Settled (Inr text) \<Rightarrow> (trace @ [Attempting provider], Some (Inr text))
      | Settled (Inl err) \<Rightarrow>
          callAI_loop e ad prompt maxTokens rest
            (trace @ [Attempting provider, Failed provider (error_message err)]))"

definition callAI ::
  "env \<Rightarrow> adapters \<Rightarrow> jsstring \<Rightarrow> nat \<Rightarrow> log_event list \<times> (jserror + jsstring) option" where
  "callAI e ad prompt maxTokens = callAI_loop e ad prompt maxTokens (providers e) []"

text \<open>The providers named by the "Attempting" lines of a trace, in order.\<close>

fun attempts :: "log_event list \<Rightarrow> jsstring list" where
  "attempts [] = []"
| "attempts (Attempting p # l) = p # attempts l"
| "attempts (Failed p m # l) = attempts l"

text \<open>A provider that the loop passes over: skipped by the \<open>default\<close> branch, or failed.\<close>

definition passedOver :: "switch_outcome \<Rightarrow> bool" where
  "passedOver r = (case r of Continue \<Rightarrow> True | Settled (Inl err) \<Rightarrow> True | _ \<Rightarrow> False)"

text \<open>Concrete configurations. Groq preferred, every key set, Groq rate-limited; no
  preference and no Gemini key, with Groq up; the same with every remaining provider
  down.\<close>

definition example_env :: env where
  "example_env = \<lparr>AI_PROVIDER = Some (js ''GROQ''), GEMINI_API_KEY = Some (js ''k0''),
                GROQ_API_KEY = Some (js ''k1''), HUGGINGFACE_API_KEY = Some (js ''k2'')\<rparr>"

definition example_adapters :: adapters where
  "example_adapters =
     \<lparr>callGemini = (\<lambda>p n. Some (Inr (js ''from gemini''))),
      callGroq = (\<lambda>p n. Some (Inl (Error (js ''Groq API Error: rate limit'')))),
      callHuggingFace_adapter = (\<lambda>p n. Some (Inr (js ''from hf'')))\<rparr>"

definition example_env_no_gemini_key :: env where
  "example_env_no_gemini_key =
     \<lparr>AI_PROVIDER = None, GEMINI_API_KEY = None,
      GROQ_API_KEY = Some (js ''k1''), HUGGINGFACE_API_KEY = Some (js ''k2'')\<rparr>"

definition example_adapters_groq_up :: adapters where
  "example_adapters_groq_up =
     \<lparr>callGemini = (\<lambda>p n. Some (Inr (js ''from gemini''))),
      callGroq = (\<lambda>p n. Some (Inr (js ''from groq''))),
      callHuggingFace_adapter = (\<lambda>p n. Some (Inr (js ''from hf'')))\<rparr>"

definition example_adapters_all_down :: adapters where
  "example_adapters_all_down =
     \<lparr>callGemini = (\<lambda>p n. Some (Inr (js ''from gemini''))),
      callGroq = (\<lambda>p n. Some (Inl (Error (js ''Groq API Error: rate limit'')))),
      callHuggingFace_adapter =
        (\<lambda>p n. Some (Inl (Error (js ''HuggingFace API Error: Service Unavailable''))))\<rparr>"

section \<open>HuggingFace adapter (huggingfaceAPI module)\<close>

text \<open>
  The network is a parameter: a function from the requests sent so far in this invocation
  (the last one being the current request) to the response. A response is a rejected
  \<open>fetch\<close> or \<open>response.json()\<close>, a response that is not ok with the \<open>error\<close> field of
  its body (if it has one, a string) and its status text, or an ok response with its
  parsed body. Of the body only what the adapter reads is kept: for an array the
  \<open>generated_text\<close> of each element, for an object its own \<open>generated_text\<close>.
  The state records every request sent (prompt and \<open>max_new_tokens\<close>) and the
  milliseconds spent in \<open>setTimeout\<close>.
\<close>

datatype hf_data = DataArray "jsstring option list" | DataObject "jsstring option"

datatype hf_response =
    Rejected jserror
  | NotOk "jsstring option" jsstring
  | Ok hf_data

type_synonym hf_request = "jsstring \<times> nat"

record hf_state =
  hf_requests :: "hf_request list"
  hf_waited :: nat

definition hf_unexpected :: "jserror + jsstring" where
  "hf_unexpected = Inl (Error (js ''Unexpected response format from HuggingFace''))"

text \<open>
  \<open>callHuggingFace\<close>. The recursion of the source has no bound, so the function is partial:
  \<open>None\<close> means that the call never returns. The \<open>catch\<close> clause logs and rethrows, so an
  exception is the result as it is.
\<close>

partial_function (option) callHuggingFace ::
  "env \<Rightarrow> (hf_request list \<Rightarrow> hf_response) \<Rightarrow> jsstring \<Rightarrow> nat \<Rightarrow> hf_state \<Rightarrow>
   (hf_state \<times> (jserror + jsstring)) option" where
  "callHuggingFace e net prompt maxTokens st =
     (if \<not> truthy (HUGGINGFACE_API_KEY e) then
        Some (st, Inl (Error (js ''HUGGINGFACE_API_KEY is not set in environment variables'')))
      else
        let st1 = st\<lparr>hf_requests := hf_requests st @ [(prompt, maxTokens)]\<rparr> in
        case net (hf_requests st1) of
          Rejected err \<Rightarrow> Some (st1, Inl err)
        | NotOk error statusText \<Rightarrow>
            if (case error of None \<Rightarrow> False | Some m \<Rightarrow> js_includes m (js ''loading'')) then
              callHuggingFace e net prompt maxTokens (st1\<lparr>hf_waited := hf_waited st1 + 20000\<rparr>)
            else
              Some (st1, Inl (Error (js ''HuggingFace API Error: '' @
                (case error of None \<Rightarrow> statusText
                 | Some m \<Rightarrow> if m \<noteq> [] then m else statusText))))
        | Ok data \<Rightarrow>
            (case data of
               DataArray xs \<Rightarrow>
                 (case xs of
                    Some t # rest \<Rightarrow>
                      if t \<noteq> [] then Some (st1, Inr (js_trim t)) else Some (st1, hf_unexpected)
                  | _ \<Rightarrow> Some (st1, hf_unexpected))
             | DataObject g \<Rightarrow>
                 (case g of
                    Some t \<Rightarrow>
                      if t \<noteq> [] then Some (st1, Inr (js_trim t)) else Some (st1, hf_unexpected)
                  | None \<Rightarrow> Some (st1, hf_unexpected))))"

text \<open>A response that reports the model as loading: not ok, with an \<open>error\<close> string that
  includes 'loading'.\<close>

definition modelLoading :: "hf_response \<Rightarrow> bool" where
  "modelLoading r =
     (case r of NotOk error statusText \<Rightarrow>
        (case error of None \<Rightarrow> False | Some m \<Rightarrow> js_includes m (js ''loading''))
      | _ \<Rightarrow> False)"

definition hf_init :: hf_state where
  "hf_init = \<lparr>hf_requests = [], hf_waited = 0\<rparr>"

text \<open>A network whose model is loading for the first two requests and ready at the third.\<close>

definition example_net :: "hf_request list \<Rightarrow> hf_response" where
  "example_net h =
     (if length h \<le> 2 then
        NotOk (Some (js ''Model mistralai/Mistral-7B-Instruct-v0.2 is currently loading''))
              (js ''Service Unavailable'')
      else Ok (DataArray [Some (js '' ready '')]))"

text \<open>A network whose model never finishes loading.\<close>

definition example_net_forever :: "hf_request list \<Rightarrow> hf_response" where
  "example_net_forever h =
     NotOk (Some (js ''Model mistralai/Mistral-7B-Instruct-v0.2 is currently loading''))
           (js ''Service Unavailable'')"

section \<open>Feasibility check (feasibilityCheck module)\<close>

text \<open>
  A weekly plan as the rule-based check reads it: the daily tasks, each with its \<open>day\<close>,
  and the mood. The plan comes from the request body, so \<open>day\<close> is any string.
  JavaScript numbers are modelled exactly: loads and counts as naturals, the average as a
  rational (the doubles of the source represent every value that occurs here up to an
  error far below the distance of \<open>avgLoad * 10\<close> from a rounding boundary, which is
  at least 1/14).
\<close>

record dailyTask =
  taskId :: jsstring
  day :: jsstring
  status :: jsstring

record weeklyPlan =
  dailyTasks :: "dailyTask list"
  mainFocusDay :: jsstring
  mood :: jsstring

record dailyLoad =
  ld_day :: jsstring
  taskCount :: nat
  load :: nat
  label :: jsstring

record analysis =
  totalTasks :: nat
  totalLoad :: nat
  averageLoad :: rat
  heavyDays :: "jsstring list"
  emptyDays :: "jsstring list"
  dailyBreakdown :: "dailyLoad list"
  hasIssues :: bool
  feasible :: bool
  warnings :: "jsstring list"

definition days :: "jsstring list" where
  "days = [js ''Monday'', js ''Tuesday'', js ''Wednesday'', js ''Thursday'', js ''Friday'',
           js ''Saturday'', js ''Sunday'']"

text \<open>\<open>groupTasksByDay\<close>: the object \<open>grouped\<close> as the list of its entries in insertion order.\<close>

definition groupTasksByDay :: "dailyTask list \<Rightarrow> (jsstring \<times> dailyTask list) list" where
  "groupTasksByDay tasks = map (\<lambda>d. (d, filter (\<lambda>t. day t = d) tasks)) days"

definition calculateDailyLoads :: "(jsstring \<times> dailyTask list) list \<Rightarrow> dailyLoad list" where
  "calculateDailyLoads tasksByDay =
     map (\<lambda>(d, tasks).
            let taskCount = length tasks;
                load = taskCount * 2;
                label = (if load = 0 then js ''Free''
                         else if load \<le> 3 then js ''Light''
                         else if load \<ge> 7 then js ''Heavy''
                         else js ''Balanced'')
            in \<lparr>ld_day = d, taskCount = taskCount, load = load, label = label\<rparr>)
         tasksByDay"

text \<open>\<open>Array.prototype.join\<close> on strings.\<close>

fun js_join :: "jsstring \<Rightarrow> jsstring list \<Rightarrow> jsstring" where
  "js_join sep [] = []"
| "js_join sep [x] = x"
| "js_join sep (x # y # ys) = x @ sep @ js_join sep (y # ys)"

text \<open>\<open>Math.round\<close>: the nearest integer, a half rounded up. JavaScript numbers are
  modelled as exact rationals.\<close>

definition Math_round :: "rat \<Rightarrow> rat" where
  "Math_round x = of_int \<lfloor>x + 1 / 2\<rfloor>"

definition performRuleBasedChecks :: "weeklyPlan \<Rightarrow> analysis" where
  "performRuleBasedChecks weeklyPlan =
     (let tasksByDay = groupTasksByDay (dailyTasks weeklyPlan);
          dailyLoads = calculateDailyLoads tasksByDay;
          heavyDays = map ld_day (filter (\<lambda>d. load d \<ge> 7) dailyLoads);
          emptyDays = map ld_day (filter (\<lambda>d. load d = 0) dailyLoads);
          totalLoad = foldl (\<lambda>sum d. sum + load d) 0 dailyLoads;
          avgLoad = (of_nat totalLoad :: rat) / 7
      in \<lparr>totalTasks = length (dailyTasks weeklyPlan),
          totalLoad = totalLoad,
          averageLoad = Math_round (avgLoad * 10) / 10,
          heavyDays = heavyDays,
          emptyDays = emptyDays,
          dailyBreakdown = dailyLoads,
          hasIssues = (length heavyDays > 0 \<or> avgLoad > 5),
          feasible = (avgLoad \<le> 6 \<and> length heavyDays \<le> 2),
          warnings =
            (if length heavyDays > 0 then
               [[0x26A0, 0xFE0F] @ js '' Heavy days detected: '' @ js_join (js '', '') heavyDays]
             else []) @
            (if avgLoad > 5 then [[0x26A0, 0xFE0F] @ js '' Overall weekly load is high''] else []) @
            (if mood weeklyPlan = js ''tired'' \<or> mood weeklyPlan = js ''stressed'' then
               [[0x26A0, 0xFE0F] @ js '' Your mood is '' @ mood weeklyPlan @
                js '' - consider reducing task load'']
             else [])\<rparr>)"

text \<open>Two concrete plans: one task on Monday; one task on Monday and one on "monday".\<close>

definition example_plan :: weeklyPlan where
  "example_plan = \<lparr>dailyTasks = [\<lparr>taskId = js ''t1'', day = js ''Monday'', status = js ''pending''\<rparr>],
                    mainFocusDay = js ''Monday'', mood = js ''normal''\<rparr>"

definition example_plan2 :: weeklyPlan where
  "example_plan2 =
     \<lparr>dailyTasks = [\<lparr>taskId = js ''t1'', day = js ''Monday'', status = js ''pending''\<rparr>,
                    \<lparr>taskId = js ''t2'', day = js ''monday'', status = js ''pending''\<rparr>],
      mainFocusDay = js ''Monday'', mood = js ''normal''\<rparr>"

section \<open>Response parsing (weeklyReflection module and the generate-tasks route)\<close>





















section \<open>Verified properties\<close>

subsection \<open>Overthinking guard\<close>

lemma severity_literals_distinct:
  "js ''none'' \<noteq> js ''moderate''" "js ''none'' \<noteq> js ''severe''" "js ''none'' \<noteq> js ''critical''"
  "js ''moderate'' \<noteq> js ''severe''" "js ''moderate'' \<noteq> js ''critical''"
  "js ''severe'' \<noteq> js ''critical''" "js ''inactive'' \<noteq> js ''none''"
  "js ''inactive'' \<noteq> js ''moderate''" "js ''inactive'' \<noteq> js ''severe''"
  "js ''inactive'' \<noteq> js ''critical''"
  by (simp_all add: js_def)

lemma rank_getSeverityLevel:
  "spec_severityRank (getSeverityLevel e d) =
     Some (if e \<ge> 10 then 3 else if e \<ge> 7 \<or> d \<ge> 7 then 2 else if e \<ge> 5 \<or> d \<ge> 3 then 1 else 0)"
  using severity_literals_distinct
  by (simp add: getSeverityLevel_def spec_severityRank_def)

text \<open>The prompt of the one AI call that \<open>checkOverthinking\<close> makes when editCount \<ge> 5.\<close>

lemma checkOverthinking_try_call:
  assumes "5 \<le> e"
  shows "checkOverthinking_try callClaude now e d =
     (case callClaude (overthinkingPrompt e (if 10 \<le> e then js ''severe'' else js ''moderate'')) 100 of
        None \<Rightarrow> None
      | Some (Inl err) \<Rightarrow> Some (Inl err)
      | Some (Inr aiResponse) \<Rightarrow>
          Some (Inr \<lparr>og_success = True, og_triggered = True,
               og_severity = Some (if 10 \<le> e then js ''severe'' else js ''moderate''),
               og_editCount = Some e, og_daysInactive = Some d,
               og_message = Some (filter (\<lambda>c. c \<noteq> 39 \<and> c \<noteq> 34) (js_trim aiResponse)),
               og_timestamp = Some now, og_fallbackMode = None\<rparr>))"
  using assms
  by (auto simp: checkOverthinking_try_def generateAIWarning_def Let_def
      split: option.splits sum.splits)

lemma checkOverthinking_try_no_call:
  assumes "\<not> 5 \<le> e"
  shows "checkOverthinking_try callClaude now e d =
     (if 3 \<le> d then
        Some (Inr \<lparr>og_success = True, og_triggered = True, og_severity = Some (js ''inactive''),
             og_editCount = Some e, og_daysInactive = Some d,
             og_message = Some (getInactivityMessage d),
             og_timestamp = Some now, og_fallbackMode = None\<rparr>)
      else
        Some (Inr \<lparr>og_success = True, og_triggered = False, og_severity = None,
             og_editCount = None, og_daysInactive = None, og_message = None,
             og_timestamp = None, og_fallbackMode = None\<rparr>))"
  using assms
  by (auto simp: checkOverthinking_try_def Let_def)

lemma checkOverthinking_never_rejects:
  "checkOverthinking callClaude now e d \<noteq> Some (Inl err)"
  by (simp add: checkOverthinking_def split: option.splits sum.splits)

lemma checkOverthinking_pending_iff:
  "checkOverthinking callClaude now e d = None \<longleftrightarrow>
     5 \<le> e \<and>
     callClaude (overthinkingPrompt e (if 10 \<le> e then js ''severe'' else js ''moderate'')) 100 = None"
proof (cases "5 \<le> e")
  case True
  then show ?thesis
    by (simp add: checkOverthinking_def checkOverthinking_try_call
        split: option.splits sum.splits)
next
  case False
  then show ?thesis
    by (simp add: checkOverthinking_def checkOverthinking_try_no_call)
qed

lemma checkOverthinking_try_fails_only_when_overthinking:
  "checkOverthinking_try cc now e d = Some (Inl err) \<Longrightarrow> e \<ge> 5"
  by (cases "5 \<le> e") (simp_all add: checkOverthinking_try_no_call split: if_splits)

lemma checkOverthinking_try_triggered:
  "checkOverthinking_try cc now e d = Some (Inr r) \<Longrightarrow> og_triggered r = (e \<ge> 5 \<or> d \<ge> 3)"
  by (cases "5 \<le> e")
     (auto simp: checkOverthinking_try_no_call checkOverthinking_try_call
       split: if_splits option.splits sum.splits)

lemma checkOverthinking_cases:
  assumes "checkOverthinking cc now e d = Some (Inr r)"
  shows "checkOverthinking_try cc now e d = Some (Inr r) \<or>
         (5 \<le> e \<and> og_fallbackMode r = Some True \<and> og_triggered r \<and>
          og_severity r = Some (if 10 \<le> e then js ''severe'' else js ''moderate'') \<and>
          og_message r = Some (getRuleBasedWarning e))"
proof (cases "checkOverthinking_try cc now e d")
  case None
  with assms show ?thesis by (simp add: checkOverthinking_def)
next
  case (Some v)
  show ?thesis
  proof (cases v)
    case (Inl err)
    with Some have "5 \<le> e" by (intro checkOverthinking_try_fails_only_when_overthinking) simp
    with Some Inl assms show ?thesis by (auto simp: checkOverthinking_def)
  next
    case (Inr r')
    with Some assms show ?thesis by (simp add: checkOverthinking_def)
  qed
qed

lemma checkOverthinking_triggered:
  assumes "checkOverthinking cc now e d = Some (Inr r)"
  shows "og_triggered r = (e \<ge> 5 \<or> d \<ge> 3)"
  using checkOverthinking_cases [OF assms] checkOverthinking_try_triggered [of cc now e d r]
  by auto

text \<open>
  Claim C6. The four-level severity computed by \<open>getSeverityLevel\<close> (critical at
  editCount \<ge> 10; severe at editCount \<ge> 7 or daysInactive \<ge> 7; moderate at editCount \<ge> 5 or
  daysInactive \<ge> 3; else none) always lies on the scale none < moderate < severe < critical
  and is monotonic non-decreasing in both inputs. \<open>checkOverthinking\<close> never rejects, and
  the \<open>triggered\<close> field of every result it resolves with equals
  (editCount \<ge> 5 or daysInactive \<ge> 3), as does \<open>shouldWarnUser\<close>.
\<close>

theorem C6_severity_monotone_and_triggered:
  "(e \<le> e' \<longrightarrow> d \<le> d' \<longrightarrow>
      (\<exists>r r'. spec_severityRank (getSeverityLevel e d) = Some r \<and>
               spec_severityRank (getSeverityLevel e' d') = Some r' \<and> r \<le> r'))
   \<and> checkOverthinking callClaude now e d \<noteq> Some (Inl err)
   \<and> (\<forall>res. checkOverthinking callClaude now e d = Some (Inr res) \<longrightarrow>
             og_triggered res = (e \<ge> 5 \<or> d \<ge> 3))
   \<and> shouldWarnUser e d = (e \<ge> 5 \<or> d \<ge> 3)"
proof (intro conjI impI allI)
  assume "e \<le> e'" "d \<le> d'"
  then show "\<exists>r r'. spec_severityRank (getSeverityLevel e d) = Some r \<and>
               spec_severityRank (getSeverityLevel e' d') = Some r' \<and> r \<le> r'"
    unfolding rank_getSeverityLevel by auto
next
  show "checkOverthinking callClaude now e d \<noteq> Some (Inl err)"
    by (rule checkOverthinking_never_rejects)
next
  fix res
  assume "checkOverthinking callClaude now e d = Some (Inr res)"
  then show "og_triggered res = (e \<ge> 5 \<or> d \<ge> 3)"
    by (rule checkOverthinking_triggered)
next
  show "shouldWarnUser e d = (e \<ge> 5 \<or> d \<ge> 3)"
    by (simp add: shouldWarnUser_def)
qed

lemma example_guard_run:
  "checkOverthinking (\<lambda>p n. Some (Inr (js ''Go.''))) [] 12 0 =
     Some (Inr \<lparr>og_success = True, og_triggered = True, og_severity = Some (js ''severe''),
          og_editCount = Some 12, og_daysInactive = Some 0, og_message = Some (js ''Go.''),
          og_timestamp = Some [], og_fallbackMode = None\<rparr>)"
  by (simp add: checkOverthinking_def checkOverthinking_try_call js_trim_def js_def
      isWhiteSpace_def)

theorem C6_severity_monotone_and_triggered_witness:
  "(5::int) \<le> 12 \<and> (0::int) \<le> 7 \<and>
   (\<exists>r r'. spec_severityRank (getSeverityLevel 5 0) = Some r \<and>
            spec_severityRank (getSeverityLevel 12 7) = Some r' \<and> r \<le> r') \<and>
   (\<exists>res. checkOverthinking (\<lambda>p n. Some (Inr (js ''Go.''))) [] 12 0 = Some (Inr res) \<and>
          og_triggered res)"
  using C6_severity_monotone_and_triggered [of 5 12 0 7 "\<lambda>p n. Some (Inr (js ''Go.''))" "[]"]
    C6_severity_monotone_and_triggered [of 12 12 0 0 "\<lambda>p n. Some (Inr (js ''Go.''))" "[]"]
    example_guard_run
  by simp

text \<open>
  Claim C4. \<open>checkOverthinking\<close> never rejects, for every editCount and daysInactive, and
  it resolves unless the AI call it awaits never settles. When the AI elaboration call
  that it makes (for editCount \<ge> 5, with the severe prompt from 10 on and the moderate
  prompt below) fails, the result carries the canned rule-based warning selected by the
  editCount thresholds (\<ge> 10 the STOP PLANNING message, then \<ge> 7, then \<ge> 5) and
  \<open>fallbackMode\<close> is true.
\<close>

theorem C4_overthinking_fallback:
  "checkOverthinking callClaude now e d \<noteq> Some (Inl err')
   \<and> ((\<exists>r. checkOverthinking callClaude now e d = Some (Inr r)) \<longleftrightarrow>
        \<not> (5 \<le> e \<and>
           callClaude (overthinkingPrompt e (if 10 \<le> e then js ''severe'' else js ''moderate'')) 100
             = None))
   \<and> (5 \<le> e \<longrightarrow>
      callClaude (overthinkingPrompt e (if 10 \<le> e then js ''severe'' else js ''moderate'')) 100
        = Some (Inl err) \<longrightarrow>
      (\<exists>r. checkOverthinking callClaude now e d = Some (Inr r) \<and>
           og_success r \<and>
           og_fallbackMode r = Some True \<and>
           og_message r = Some (getRuleBasedWarning e) \<and>
           getRuleBasedWarning e =
             (if 10 \<le> e then msgStopPlanning
              else if 7 \<le> e then msgTooMuchPlanning else msgPlannedEnough)))"
proof (intro conjI impI)
  show "checkOverthinking callClaude now e d \<noteq> Some (Inl err')"
    by (rule checkOverthinking_never_rejects)
next
  have "(\<exists>r. checkOverthinking callClaude now e d = Some (Inr r)) \<longleftrightarrow>
      checkOverthinking callClaude now e d \<noteq> None"
    using checkOverthinking_never_rejects [of callClaude now e d]
    by (cases "checkOverthinking callClaude now e d") (auto intro: sum.exhaust)
  then show "(\<exists>r. checkOverthinking callClaude now e d = Some (Inr r)) \<longleftrightarrow>
        \<not> (5 \<le> e \<and>
           callClaude (overthinkingPrompt e (if 10 \<le> e then js ''severe'' else js ''moderate'')) 100
             = None)"
    by (simp only: checkOverthinking_pending_iff)
next
  assume e: "5 \<le> e"
    and fails: "callClaude (overthinkingPrompt e
        (if 10 \<le> e then js ''severe'' else js ''moderate'')) 100 = Some (Inl err)"
  from e fails have "checkOverthinking_try callClaude now e d = Some (Inl err)"
    by (simp add: checkOverthinking_try_call)
  then have "checkOverthinking callClaude now e d =
      Some (Inr \<lparr>og_success = True, og_triggered = (e \<ge> 5),
           og_severity = Some (if e \<ge> 10 then js ''severe'' else js ''moderate''),
           og_editCount = None, og_daysInactive = None,
           og_message = Some (getRuleBasedWarning e),
           og_timestamp = None, og_fallbackMode = Some True\<rparr>)"
    by (simp add: checkOverthinking_def)
  moreover from e have "getRuleBasedWarning e =
      (if 10 \<le> e then msgStopPlanning
       else if 7 \<le> e then msgTooMuchPlanning else msgPlannedEnough)"
    by (simp add: getRuleBasedWarning_def)
  ultimately show "\<exists>r. checkOverthinking callClaude now e d = Some (Inr r) \<and>
         og_success r \<and>
         og_fallbackMode r = Some True \<and>
         og_message r = Some (getRuleBasedWarning e) \<and>
         getRuleBasedWarning e =
           (if 10 \<le> e then msgStopPlanning
            else if 7 \<le> e then msgTooMuchPlanning else msgPlannedEnough)"
    by simp
qed

theorem C4_overthinking_fallback_witness:
  "(5::int) \<le> 10 \<and>
   (\<exists>r. checkOverthinking
          (\<lambda>p n. Some (Inl (Error (js ''All free AI providers are currently unavailable'')))) [] 10 0
          = Some (Inr r) \<and>
        og_success r \<and> og_fallbackMode r = Some True \<and> og_message r = Some msgStopPlanning)"
  using C4_overthinking_fallback
    [of "\<lambda>p n. Some (Inl (Error (js ''All free AI providers are currently unavailable'')))" "[]" 10 0 "Error []"
        "Error (js ''All free AI providers are currently unavailable'')"]
  by auto

text \<open>
  Claim C9. For every result that \<open>checkOverthinking\<close> resolves with: on the triggered
  path that is not the fallback the \<open>severity\<close> field is 'severe', 'moderate' or
  'inactive'; on the fallback path it is 'severe' or 'moderate'. In particular
  editCount \<ge> 10 gives 'severe' and never the four-level value 'critical', and a trigger
  caused by inactivity alone gives 'inactive', a value that is not on the scale none,
  moderate, severe, critical.
\<close>

theorem C9_checkOverthinking_severity_values:
  assumes "checkOverthinking callClaude now e d = Some (Inr r)"
  shows "(og_triggered r \<and> og_fallbackMode r \<noteq> Some True \<longrightarrow>
            og_severity r \<in> {Some (js ''severe''), Some (js ''moderate''), Some (js ''inactive'')})
       \<and> (og_fallbackMode r = Some True \<longrightarrow>
            og_severity r \<in> {Some (js ''severe''), Some (js ''moderate'')})
       \<and> (10 \<le> e \<longrightarrow> og_severity r = Some (js ''severe'') \<and>
                        og_severity r \<noteq> Some (js ''critical''))
       \<and> (e < 5 \<and> 3 \<le> d \<longrightarrow> og_triggered r \<and> og_severity r = Some (js ''inactive'') \<and>
                        spec_severityRank (js ''inactive'') = None)"
proof -
  have rank: "spec_severityRank (js ''inactive'') = None"
    using severity_literals_distinct by (simp add: spec_severityRank_def)
  from checkOverthinking_cases [OF assms] show ?thesis
  proof
    assume t: "checkOverthinking_try callClaude now e d = Some (Inr r)"
    show ?thesis
    proof (cases "5 \<le> e")
      case True
      with t rank severity_literals_distinct show ?thesis
        by (auto simp: checkOverthinking_try_call split: option.splits sum.splits)
    next
      case False
      with t rank severity_literals_distinct show ?thesis
        by (auto simp: checkOverthinking_try_no_call split: if_splits)
    qed
  next
    assume "5 \<le> e \<and> og_fallbackMode r = Some True \<and> og_triggered r \<and>
          og_severity r = Some (if 10 \<le> e then js ''severe'' else js ''moderate'') \<and>
          og_message r = Some (getRuleBasedWarning e)"
    with severity_literals_distinct show ?thesis by auto
  qed
qed

theorem C9_checkOverthinking_severity_values_witness:
  "checkOverthinking (\<lambda>p n. Some (Inr (js ''Go.''))) [] 12 0 =
     Some (Inr \<lparr>og_success = True, og_triggered = True, og_severity = Some (js ''severe''),
          og_editCount = Some 12, og_daysInactive = Some 0, og_message = Some (js ''Go.''),
          og_timestamp = Some [], og_fallbackMode = None\<rparr>)
   \<and> Some (js ''severe'') \<noteq> Some (js ''critical'')"
  using C9_checkOverthinking_severity_values [OF example_guard_run] example_guard_run
  by simp

subsection \<open>Task downgrade\<close>

lemma suggestTaskDowngrade_eq:
  \<open>suggestTaskDowngrade callClaude now taskName difficulty missedCount =
     (case callClaude (downgradePrompt taskName difficulty missedCount) 200 of
        None \<Rightarrow> None
      | Some (Inl err) \<Rightarrow>
          Some (Inr \<lparr>dg_success = True, dg_originalTask = taskName,
               dg_difficulty = None, dg_missedCount = None,
               dg_suggestions = \<lparr>ruleBased = getRuleBasedDowngrade taskName difficulty,
                                 aiGenerated = None\<rparr>,
               dg_fallbackMode = Some True,
               dg_message = js ''Consider this easier alternative for "'' @ taskName @ js ''":'',
               dg_timestamp = now\<rparr>)
      | Some (Inr aiResponse) \<Rightarrow>
          Some (Inr \<lparr>dg_success = True, dg_originalTask = taskName,
               dg_difficulty = Some difficulty, dg_missedCount = Some missedCount,
               dg_suggestions = \<lparr>ruleBased = getRuleBasedDowngrade taskName difficulty,
                                 aiGenerated = Some (js_trim aiResponse)\<rparr>,
               dg_fallbackMode = None,
               dg_message = js ''You've missed "'' @ taskName @ js ''" '' @ numToString missedCount @
                 js '' times. Here's an easier alternative to keep momentum:'',
               dg_timestamp = now\<rparr>))\<close>
  by (simp add: suggestTaskDowngrade_def suggestTaskDowngrade_try_def getAIDowngrade_def Let_def
      split: option.splits sum.splits)

text \<open>
  Claim C5. For every task name, difficulty and miss count \<open>suggestTaskDowngrade\<close> never
  rejects; it resolves unless the AI call it awaits never settles, and with the module as
  it is written (no binding for \<open>callClaude\<close>) it always resolves. Every result carries
  the rule-based suggestion. When the AI elaboration call fails the result has
  \<open>aiGenerated\<close> null and \<open>fallbackMode\<close> true; when it succeeds the result has the
  trimmed AI text beside the rule-based suggestion, which is not withheld, and no
  fallback flag.
\<close>

theorem C5_suggestTaskDowngrade_always_rule_based:
  "suggestTaskDowngrade callClaude now taskName difficulty missedCount \<noteq> Some (Inl err')
   \<and> ((\<exists>r. suggestTaskDowngrade callClaude now taskName difficulty missedCount = Some (Inr r)) \<longleftrightarrow>
        callClaude (downgradePrompt taskName difficulty missedCount) 200 \<noteq> None)
   \<and> (\<exists>r. suggestTaskDowngrade callClaude_unbound now taskName difficulty missedCount = Some (Inr r))
   \<and> (\<forall>r. suggestTaskDowngrade callClaude now taskName difficulty missedCount = Some (Inr r) \<longrightarrow>
        dg_success r \<and>
        ruleBased (dg_suggestions r) = getRuleBasedDowngrade taskName difficulty \<and>
        (\<forall>err. callClaude (downgradePrompt taskName difficulty missedCount) 200 = Some (Inl err) \<longrightarrow>
           aiGenerated (dg_suggestions r) = None \<and> dg_fallbackMode r = Some True) \<and>
        (\<forall>text. callClaude (downgradePrompt taskName difficulty missedCount) 200 = Some (Inr text) \<longrightarrow>
           aiGenerated (dg_suggestions r) = Some (js_trim text) \<and> dg_fallbackMode r = None))"
proof (intro conjI)
  show "suggestTaskDowngrade callClaude now taskName difficulty missedCount \<noteq> Some (Inl err')"
    by (simp add: suggestTaskDowngrade_eq split: option.splits sum.splits)
next
  show "(\<exists>r. suggestTaskDowngrade callClaude now taskName difficulty missedCount = Some (Inr r)) \<longleftrightarrow>
        callClaude (downgradePrompt taskName difficulty missedCount) 200 \<noteq> None"
    by (simp add: suggestTaskDowngrade_eq split: option.splits sum.splits)
next
  show "\<exists>r. suggestTaskDowngrade callClaude_unbound now taskName difficulty missedCount = Some (Inr r)"
    by (simp add: suggestTaskDowngrade_eq callClaude_unbound_def)
next
  show "\<forall>r. suggestTaskDowngrade callClaude now taskName difficulty missedCount = Some (Inr r) \<longrightarrow>
        dg_success r \<and>
        ruleBased (dg_suggestions r) = getRuleBasedDowngrade taskName difficulty \<and>
        (\<forall>err. callClaude (downgradePrompt taskName difficulty missedCount) 200 = Some (Inl err) \<longrightarrow>
           aiGenerated (dg_suggestions r) = None \<and> dg_fallbackMode r = Some True) \<and>
        (\<forall>text. callClaude (downgradePrompt taskName difficulty missedCount) 200 = Some (Inr text) \<longrightarrow>
           aiGenerated (dg_suggestions r) = Some (js_trim text) \<and> dg_fallbackMode r = None)"
    by (auto simp: suggestTaskDowngrade_eq split: option.splits sum.splits)
qed

lemma example_downgrade_rule:
  "getRuleBasedDowngrade (js ''Gym workout'') (js ''Hard'') =
     js ''20-minute light cardio or stretching''"
  by (simp add: getRuleBasedDowngrade_def js_def js_toLowerCase_def lowerUnit_def)

theorem C5_suggestTaskDowngrade_always_rule_based_witness:
  "callClaude_unbound (downgradePrompt (js ''Gym workout'') (js ''Hard'') 2) 200
     = Some (Inl (ReferenceError (js ''callClaude is not defined''))) \<and>
   (\<exists>r. suggestTaskDowngrade callClaude_unbound [] (js ''Gym workout'') (js ''Hard'') 2 = Some (Inr r) \<and>
        ruleBased (dg_suggestions r) = js ''20-minute light cardio or stretching'' \<and>
        aiGenerated (dg_suggestions r) = None \<and> dg_fallbackMode r = Some True)"
proof -
  have fails: "callClaude_unbound (downgradePrompt (js ''Gym workout'') (js ''Hard'') 2) 200
     = Some (Inl (ReferenceError (js ''callClaude is not defined'')))"
    by (simp add: callClaude_unbound_def)
  from C5_suggestTaskDowngrade_always_rule_based
    [of callClaude_unbound "[]" "js ''Gym workout''" "js ''Hard''" 2] fails
    example_downgrade_rule
  show ?thesis by auto
qed

subsection \<open>Orchestrator\<close>

lemma attempts_append: "attempts (xs @ ys) = attempts xs @ attempts ys"
  by (induction xs rule: attempts.induct) auto

lemma provider_literals_distinct:
  "js ''gemini'' \<noteq> js ''groq''" "js ''gemini'' \<noteq> js ''huggingface''"
  "js ''groq'' \<noteq> js ''huggingface''"
  by (simp_all add: js_def)

lemma distinct_providers: "distinct (providers e)"
  using provider_literals_distinct
  by (auto simp: providers_def PROVIDER_ORDER_def split: option.splits)

lemma set_providers:
  "set PROVIDER_ORDER \<subseteq> set (providers e)"
  "p \<in> set (providers e) \<Longrightarrow> p \<notin> set PROVIDER_ORDER \<Longrightarrow> tryProvider e ad p prompt n = Continue"
  by (auto simp: providers_def PROVIDER_ORDER_def tryProvider_def split: option.splits if_splits)

lemma tryProvider_known:
  "p \<in> set PROVIDER_ORDER \<Longrightarrow> tryProvider e ad p prompt n \<noteq> Continue"
  by (auto simp: PROVIDER_ORDER_def tryProvider_def awaitAdapter_def split: option.splits)

lemma passedOver_iff:
  "passedOver r \<longleftrightarrow> r = Continue \<or> (\<exists>err. r = Settled (Inl err))"
  by (auto simp: passedOver_def split: switch_outcome.splits sum.splits)

lemma callAI_loop_success:
  "callAI_loop e ad prompt n ps trace = (trace', Some (Inr text)) \<Longrightarrow>
   \<exists>qs p rest. ps = qs @ p # rest \<and> attempts trace' = attempts trace @ qs @ [p] \<and>
     tryProvider e ad p prompt n = Settled (Inr text) \<and>
     (\<forall>q \<in> set qs. passedOver (tryProvider e ad q prompt n))"
proof (induction ps arbitrary: trace)
  case Nil
  then show ?case by simp
next
  case (Cons a ps)
  show ?case
  proof (cases "tryProvider e ad a prompt n")
    case Continue
    with Cons.prems have "callAI_loop e ad prompt n ps (trace @ [Attempting a]) = (trace', Some (Inr text))"
      by simp
    from Cons.IH [OF this] obtain qs p rest where
      "ps = qs @ p # rest" "attempts trace' = attempts (trace @ [Attempting a]) @ qs @ [p]"
      "tryProvider e ad p prompt n = Settled (Inr text)"
      "\<forall>q \<in> set qs. passedOver (tryProvider e ad q prompt n)"
      by blast
    with Continue show ?thesis
      by (intro exI [of _ "a # qs"] exI [of _ p] exI [of _ rest])
         (simp add: attempts_append passedOver_def)
  next
    case Pending
    with Cons.prems show ?thesis by simp
  next
    case (Settled r)
    show ?thesis
    proof (cases r)
      case (Inl err)
      with Settled Cons.prems have
        "callAI_loop e ad prompt n ps (trace @ [Attempting a, Failed a (error_message err)])
           = (trace', Some (Inr text))"
        by simp
      from Cons.IH [OF this] obtain qs p rest where
        "ps = qs @ p # rest"
        "attempts trace' = attempts (trace @ [Attempting a, Failed a (error_message err)]) @ qs @ [p]"
        "tryProvider e ad p prompt n = Settled (Inr text)"
        "\<forall>q \<in> set qs. passedOver (tryProvider e ad q prompt n)"
        by blast
      with Settled Inl show ?thesis
        by (intro exI [of _ "a # qs"] exI [of _ p] exI [of _ rest])
           (simp add: attempts_append passedOver_def)
    next
      case (Inr t)
      with Settled Cons.prems have "trace' = trace @ [Attempting a]" "t = text" by simp_all
      with Settled Inr show ?thesis
        by (intro exI [of _ "[]"] exI [of _ a] exI [of _ ps]) (simp add: attempts_append)
    qed
  qed
qed

lemma callAI_loop_pending:
  "callAI_loop e ad prompt n ps trace = (trace', None) \<Longrightarrow>
   \<exists>qs p rest. ps = qs @ p # rest \<and> attempts trace' = attempts trace @ qs @ [p] \<and>
     tryProvider e ad p prompt n = Pending \<and>
     (\<forall>q \<in> set qs. passedOver (tryProvider e ad q prompt n))"
proof (induction ps arbitrary: trace)
  case Nil
  then show ?case by simp
next
  case (Cons a ps)
  show ?case
  proof (cases "tryProvider e ad a prompt n")
    case Continue
    with Cons.prems have "callAI_loop e ad prompt n ps (trace @ [Attempting a]) = (trace', None)"
      by simp
    from Cons.IH [OF this] obtain qs p rest where
      "ps = qs @ p # rest" "attempts trace' = attempts (trace @ [Attempting a]) @ qs @ [p]"
      "tryProvider e ad p prompt n = Pending"
      "\<forall>q \<in> set qs. passedOver (tryProvider e ad q prompt n)"
      by blast
    with Continue show ?thesis
      by (intro exI [of _ "a # qs"] exI [of _ p] exI [of _ rest])
         (simp add: attempts_append passedOver_def)
  next
    case Pending
    with Cons.prems have "trace' = trace @ [Attempting a]" by simp
    with Pending show ?thesis
      by (intro exI [of _ "[]"] exI [of _ a] exI [of _ ps]) (simp add: attempts_append)
  next
    case (Settled r)
    show ?thesis
    proof (cases r)
      case (Inl err)
      with Settled Cons.prems have
        "callAI_loop e ad prompt n ps (trace @ [Attempting a, Failed a (error_message err)])
           = (trace', None)"
        by simp
      from Cons.IH [OF this] obtain qs p rest where
        "ps = qs @ p # rest"
        "attempts trace' = attempts (trace @ [Attempting a, Failed a (error_message err)]) @ qs @ [p]"
        "tryProvider e ad p prompt n = Pending"
        "\<forall>q \<in> set qs. passedOver (tryProvider e ad q prompt n)"
        by blast
      with Settled Inl show ?thesis
        by (intro exI [of _ "a # qs"] exI [of _ p] exI [of _ rest])
           (simp add: attempts_append passedOver_def)
    next
      case (Inr t)
      with Settled Cons.prems show ?thesis by simp
    qed
  qed
qed

lemma callAI_loop_failure:
  "callAI_loop e ad prompt n ps trace = (trace', Some (Inl err)) \<Longrightarrow>
   err = Error (js ''All free AI providers are currently unavailable'') \<and>
   attempts trace' = attempts trace @ ps \<and>
   (\<forall>q \<in> set ps. passedOver (tryProvider e ad q prompt n))"
proof (induction ps arbitrary: trace)
  case Nil
  then show ?case by simp
next
  case (Cons a ps)
  show ?case
  proof (cases "tryProvider e ad a prompt n")
    case Continue
    with Cons.prems have "callAI_loop e ad prompt n ps (trace @ [Attempting a]) = (trace', Some (Inl err))"
      by simp
    from Cons.IH [OF this] Continue show ?thesis
      by (simp add: attempts_append passedOver_iff)
  next
    case Pending
    with Cons.prems show ?thesis by simp
  next
    case (Settled r)
    show ?thesis
    proof (cases r)
      case (Inl err1)
      with Settled Cons.prems have
        "callAI_loop e ad prompt n ps (trace @ [Attempting a, Failed a (error_message err1)])
           = (trace', Some (Inl err))"
        by simp
      from Cons.IH [OF this] Settled Inl show ?thesis
        by (simp add: attempts_append passedOver_iff)
    next
      case (Inr t)
      with Settled Cons.prems show ?thesis by simp
    qed
  qed
qed

lemma callAI_loop_all_fail:
  "\<forall>q \<in> set ps. passedOver (tryProvider e ad q prompt n) \<Longrightarrow>
   snd (callAI_loop e ad prompt n ps trace) =
     Some (Inl (Error (js ''All free AI providers are currently unavailable'')))"
  by (induction ps arbitrary: trace)
     (auto simp: passedOver_def split: switch_outcome.splits sum.splits)

lemma tryProvider_succeeds_iff:
  "tryProvider e ad p prompt n = Settled (Inr text) \<longleftrightarrow>
     (p = js ''gemini'' \<and> truthy (GEMINI_API_KEY e) \<and>
        callGemini ad prompt n = Some (Inr text)) \<or>
     (p = js ''groq'' \<and> truthy (GROQ_API_KEY e) \<and>
        callGroq ad prompt n = Some (Inr text)) \<or>
     (p = js ''huggingface'' \<and> truthy (HUGGINGFACE_API_KEY e) \<and>
        callHuggingFace_adapter ad prompt n = Some (Inr text))"
  using provider_literals_distinct
  by (auto simp: tryProvider_def awaitAdapter_def split: option.splits)

lemma tryProvider_pending_iff:
  "tryProvider e ad p prompt n = Pending \<longleftrightarrow>
     (p = js ''gemini'' \<and> truthy (GEMINI_API_KEY e) \<and> callGemini ad prompt n = None) \<or>
     (p = js ''groq'' \<and> truthy (GROQ_API_KEY e) \<and> callGroq ad prompt n = None) \<or>
     (p = js ''huggingface'' \<and> truthy (HUGGINGFACE_API_KEY e) \<and>
        callHuggingFace_adapter ad prompt n = None)"
  using provider_literals_distinct
  by (auto simp: tryProvider_def awaitAdapter_def split: option.splits)

lemma tryProvider_passedOver_iff:
  "passedOver (tryProvider e ad p prompt n) \<longleftrightarrow>
     (p = js ''gemini'' \<longrightarrow>
        \<not> truthy (GEMINI_API_KEY e) \<or> (\<exists>err. callGemini ad prompt n = Some (Inl err))) \<and>
     (p = js ''groq'' \<longrightarrow>
        \<not> truthy (GROQ_API_KEY e) \<or> (\<exists>err. callGroq ad prompt n = Some (Inl err))) \<and>
     (p = js ''huggingface'' \<longrightarrow>
        \<not> truthy (HUGGINGFACE_API_KEY e) \<or>
        (\<exists>err. callHuggingFace_adapter ad prompt n = Some (Inl err)))"
  using provider_literals_distinct
  by (auto simp: passedOver_iff tryProvider_def awaitAdapter_def split: option.splits)

lemma tryProvider_fails_iff:
  "(\<forall>p \<in> set PROVIDER_ORDER. \<exists>err. tryProvider e ad p prompt n = Settled (Inl err)) \<longleftrightarrow>
     (\<not> truthy (GEMINI_API_KEY e) \<or> (\<exists>err. callGemini ad prompt n = Some (Inl err))) \<and>
     (\<not> truthy (GROQ_API_KEY e) \<or> (\<exists>err. callGroq ad prompt n = Some (Inl err))) \<and>
     (\<not> truthy (HUGGINGFACE_API_KEY e) \<or>
        (\<exists>err. callHuggingFace_adapter ad prompt n = Some (Inl err)))"
  using provider_literals_distinct
  by (auto simp: PROVIDER_ORDER_def tryProvider_def awaitAdapter_def split: option.splits)

lemma callAI_outcome:
  assumes "callAI e ad prompt n = (trace, res)"
  shows "distinct (attempts trace)
     \<and> (\<exists>rest. providers e = attempts trace @ rest)
     \<and> (\<forall>text. res = Some (Inr text) \<longrightarrow>
          (\<exists>qs p rest. providers e = qs @ p # rest \<and> attempts trace = qs @ [p] \<and>
             tryProvider e ad p prompt n = Settled (Inr text) \<and>
             (\<forall>q \<in> set qs. passedOver (tryProvider e ad q prompt n))))
     \<and> ((\<exists>err. res = Some (Inl err)) \<longleftrightarrow>
          (\<forall>p \<in> set PROVIDER_ORDER. \<exists>err. tryProvider e ad p prompt n = Settled (Inl err)))
     \<and> (\<forall>err. res = Some (Inl err) \<longrightarrow>
          err = Error (js ''All free AI providers are currently unavailable'') \<and>
          attempts trace = providers e)
     \<and> (res = None \<longrightarrow>
          (\<exists>qs p rest. providers e = qs @ p # rest \<and> attempts trace = qs @ [p] \<and>
             tryProvider e ad p prompt n = Pending \<and>
             (\<forall>q \<in> set qs. passedOver (tryProvider e ad q prompt n))))"
proof -
  from assms have run: "callAI_loop e ad prompt n (providers e) [] = (trace, res)"
    by (simp add: callAI_def)
  have succ: "\<exists>qs p rest. providers e = qs @ p # rest \<and> attempts trace = qs @ [p] \<and>
             tryProvider e ad p prompt n = Settled (Inr out) \<and>
             (\<forall>q \<in> set qs. passedOver (tryProvider e ad q prompt n))"
    if "res = Some (Inr out)" for out
    using callAI_loop_success [of e ad prompt n "providers e" "[]" trace out] run that
    by simp
  have pend: "\<exists>qs p rest. providers e = qs @ p # rest \<and> attempts trace = qs @ [p] \<and>
             tryProvider e ad p prompt n = Pending \<and>
             (\<forall>q \<in> set qs. passedOver (tryProvider e ad q prompt n))"
    if "res = None"
    using callAI_loop_pending [of e ad prompt n "providers e" "[]" trace] run that
    by simp
  have fail: "err = Error (js ''All free AI providers are currently unavailable'') \<and>
      attempts trace = providers e \<and>
      (\<forall>q \<in> set (providers e). passedOver (tryProvider e ad q prompt n))"
    if "res = Some (Inl err)" for err
    using callAI_loop_failure [of e ad prompt n "providers e" "[]" trace err] run that
    by simp
  have pre: "\<exists>rest. providers e = attempts trace @ rest"
  proof (cases res)
    case None
    from pend [OF this] obtain qs p rest where
      "providers e = qs @ p # rest" "attempts trace = qs @ [p]" by blast
    then show ?thesis by simp
  next
    case (Some v)
    show ?thesis
    proof (cases v)
      case (Inl err)
      with Some fail show ?thesis by simp
    next
      case (Inr out)
      with Some succ obtain qs p rest where
        "providers e = qs @ p # rest" "attempts trace = qs @ [p]" by blast
      then show ?thesis by simp
    qed
  qed
  then obtain rest where "providers e = attempts trace @ rest" ..
  with distinct_providers [of e] have dist: "distinct (attempts trace)"
    by (metis distinct_append)
  have iff: "(\<exists>err. res = Some (Inl err)) \<longleftrightarrow>
      (\<forall>p \<in> set PROVIDER_ORDER. \<exists>err. tryProvider e ad p prompt n = Settled (Inl err))"
  proof
    assume "\<exists>err. res = Some (Inl err)"
    then obtain err where "res = Some (Inl err)" ..
    from fail [OF this]
    have over: "\<forall>q \<in> set (providers e). passedOver (tryProvider e ad q prompt n)"
      by simp
    show "\<forall>p \<in> set PROVIDER_ORDER. \<exists>err. tryProvider e ad p prompt n = Settled (Inl err)"
    proof
      fix p assume p: "p \<in> set PROVIDER_ORDER"
      with set_providers(1) [of e] have "p \<in> set (providers e)" by blast
      with over have "passedOver (tryProvider e ad p prompt n)" by blast
      moreover from p have "tryProvider e ad p prompt n \<noteq> Continue" by (rule tryProvider_known)
      ultimately show "\<exists>err. tryProvider e ad p prompt n = Settled (Inl err)"
        by (simp add: passedOver_iff)
    qed
  next
    assume all: "\<forall>p \<in> set PROVIDER_ORDER. \<exists>err. tryProvider e ad p prompt n = Settled (Inl err)"
    have "\<forall>q \<in> set (providers e). passedOver (tryProvider e ad q prompt n)"
    proof
      fix q assume q: "q \<in> set (providers e)"
      show "passedOver (tryProvider e ad q prompt n)"
      proof (cases "q \<in> set PROVIDER_ORDER")
        case True
        with all show ?thesis by (auto simp: passedOver_def)
      next
        case False
        with q have "tryProvider e ad q prompt n = Continue" by (rule set_providers(2))
        then show ?thesis by (simp add: passedOver_def)
      qed
    qed
    from callAI_loop_all_fail [OF this, of "[]"] run
    show "\<exists>err. res = Some (Inl err)" by simp
  qed
  from dist pre succ fail iff pend show ?thesis by blast
qed

text \<open>
  Claim C1. For every prompt and every provider chain, one call of \<open>callAI\<close> attempts
  providers in the order of its provider list and no provider twice. When it returns a
  text, that text is what the adapter of the first succeeding provider returned (its API
  key is set and its adapter resolved with the text), every provider before it in the
  list was attempted and failed (its key is missing or its adapter rejected; a name that
  is no provider is skipped), and no provider after it is attempted. It raises exactly
  when each of Gemini, Groq and HuggingFace fails, and what it raises is the one aggregate
  error 'All free AI providers are currently unavailable', whatever the individual errors
  were (they go to the console trace only). The one other outcome is that the call stays
  pending, on an adapter call that never settles.
\<close>

theorem C1_callAI_fallback:
  assumes "callAI e ad prompt n = (trace, res)"
  shows "distinct (attempts trace)
     \<and> (\<exists>rest. providers e = attempts trace @ rest)
     \<and> (\<forall>text. res = Some (Inr text) \<longrightarrow>
          (\<exists>qs p rest. providers e = qs @ p # rest \<and> attempts trace = qs @ [p] \<and>
             ((p = js ''gemini'' \<and> truthy (GEMINI_API_KEY e) \<and>
                 callGemini ad prompt n = Some (Inr text)) \<or>
              (p = js ''groq'' \<and> truthy (GROQ_API_KEY e) \<and>
                 callGroq ad prompt n = Some (Inr text)) \<or>
              (p = js ''huggingface'' \<and> truthy (HUGGINGFACE_API_KEY e) \<and>
                 callHuggingFace_adapter ad prompt n = Some (Inr text))) \<and>
             (\<forall>q \<in> set qs.
                (q = js ''gemini'' \<longrightarrow>
                   \<not> truthy (GEMINI_API_KEY e) \<or>
                   (\<exists>err. callGemini ad prompt n = Some (Inl err))) \<and>
                (q = js ''groq'' \<longrightarrow>
                   \<not> truthy (GROQ_API_KEY e) \<or>
                   (\<exists>err. callGroq ad prompt n = Some (Inl err))) \<and>
                (q = js ''huggingface'' \<longrightarrow>
                   \<not> truthy (HUGGINGFACE_API_KEY e) \<or>
                   (\<exists>err. callHuggingFace_adapter ad prompt n = Some (Inl err))))))
     \<and> ((\<exists>err. res = Some (Inl err)) \<longleftrightarrow>
          (\<not> truthy (GEMINI_API_KEY e) \<or> (\<exists>err. callGemini ad prompt n = Some (Inl err))) \<and>
          (\<not> truthy (GROQ_API_KEY e) \<or> (\<exists>err. callGroq ad prompt n = Some (Inl err))) \<and>
          (\<not> truthy (HUGGINGFACE_API_KEY e) \<or>
             (\<exists>err. callHuggingFace_adapter ad prompt n = Some (Inl err))))
     \<and> (\<forall>err. res = Some (Inl err) \<longrightarrow>
          err = Error (js ''All free AI providers are currently unavailable'') \<and>
          attempts trace = providers e)
     \<and> (res = None \<longrightarrow>
          (\<exists>qs p rest. providers e = qs @ p # rest \<and> attempts trace = qs @ [p] \<and>
             ((p = js ''gemini'' \<and> truthy (GEMINI_API_KEY e) \<and>
                 callGemini ad prompt n = None) \<or>
              (p = js ''groq'' \<and> truthy (GROQ_API_KEY e) \<and>
                 callGroq ad prompt n = None) \<or>
              (p = js ''huggingface'' \<and> truthy (HUGGINGFACE_API_KEY e) \<and>
                 callHuggingFace_adapter ad prompt n = None)) \<and>
             (\<forall>q \<in> set qs.
                (q = js ''gemini'' \<longrightarrow>
                   \<not> truthy (GEMINI_API_KEY e) \<or>
                   (\<exists>err. callGemini ad prompt n = Some (Inl err))) \<and>
                (q = js ''groq'' \<longrightarrow>
                   \<not> truthy (GROQ_API_KEY e) \<or>
                   (\<exists>err. callGroq ad prompt n = Some (Inl err))) \<and>
                (q = js ''huggingface'' \<longrightarrow>
                   \<not> truthy (HUGGINGFACE_API_KEY e) \<or>
                   (\<exists>err. callHuggingFace_adapter ad prompt n = Some (Inl err))))))"
  using callAI_outcome [OF assms]
  unfolding tryProvider_succeeds_iff tryProvider_pending_iff tryProvider_passedOver_iff
    tryProvider_fails_iff
  .

lemma example_callAI_run:
  "callAI example_env example_adapters (js ''hi'') 50 =
     ([Attempting (js ''groq''), Failed (js ''groq'') (js ''Groq API Error: rate limit''),
       Attempting (js ''gemini'')], Some (Inr (js ''from gemini'')))"
  by (simp add: callAI_def providers_def PRIMARY_PROVIDER_def PROVIDER_ORDER_def example_env_def
      example_adapters_def tryProvider_def awaitAdapter_def truthy_def js_toLowerCase_def
      lowerUnit_def js_def)

lemma example_callAI_run_no_key:
  "callAI example_env_no_gemini_key example_adapters_groq_up (js ''hi'') 50 =
     ([Attempting (js ''gemini''), Failed (js ''gemini'') (js ''Gemini API key missing''),
       Attempting (js ''groq'')], Some (Inr (js ''from groq'')))"
  by (simp add: callAI_def providers_def PRIMARY_PROVIDER_def PROVIDER_ORDER_def
      example_env_no_gemini_key_def example_adapters_groq_up_def tryProvider_def
      awaitAdapter_def truthy_def js_def)

lemma example_callAI_run_all_down:
  "callAI example_env_no_gemini_key example_adapters_all_down (js ''hi'') 50 =
     ([Attempting (js ''gemini''), Failed (js ''gemini'') (js ''Gemini API key missing''),
       Attempting (js ''groq''), Failed (js ''groq'') (js ''Groq API Error: rate limit''),
       Attempting (js ''huggingface''),
       Failed (js ''huggingface'') (js ''HuggingFace API Error: Service Unavailable'')],
      Some (Inl (Error (js ''All free AI providers are currently unavailable''))))"
  by (simp add: callAI_def providers_def PRIMARY_PROVIDER_def PROVIDER_ORDER_def
      example_env_no_gemini_key_def example_adapters_all_down_def tryProvider_def
      awaitAdapter_def truthy_def js_def)

theorem C1_callAI_fallback_witness:
  "(\<exists>trace. callAI example_env example_adapters (js ''hi'') 50 =
        (trace, Some (Inr (js ''from gemini''))) \<and>
      attempts trace = [js ''groq'', js ''gemini''] \<and>
      truthy (GROQ_API_KEY example_env) \<and>
      callGroq example_adapters (js ''hi'') 50 =
        Some (Inl (Error (js ''Groq API Error: rate limit''))) \<and>
      truthy (GEMINI_API_KEY example_env) \<and>
      callGemini example_adapters (js ''hi'') 50 = Some (Inr (js ''from gemini'')))
   \<and> (\<exists>trace. callAI example_env_no_gemini_key example_adapters_groq_up (js ''hi'') 50 =
        (trace, Some (Inr (js ''from groq''))) \<and>
      attempts trace = [js ''gemini'', js ''groq''] \<and>
      GEMINI_API_KEY example_env_no_gemini_key = None \<and>
      callGemini example_adapters_groq_up (js ''hi'') 50 = Some (Inr (js ''from gemini'')) \<and>
      callGroq example_adapters_groq_up (js ''hi'') 50 = Some (Inr (js ''from groq'')))
   \<and> (\<exists>trace. callAI example_env_no_gemini_key example_adapters_all_down (js ''hi'') 50 =
        (trace, Some (Inl (Error (js ''All free AI providers are currently unavailable'')))) \<and>
      attempts trace = [js ''gemini'', js ''groq'', js ''huggingface''])"
proof -
  have keys: "truthy (GROQ_API_KEY example_env)" "truthy (GEMINI_API_KEY example_env)"
    "GEMINI_API_KEY example_env_no_gemini_key = None"
    by (simp_all add: example_env_def example_env_no_gemini_key_def truthy_def js_def)
  have calls: "callGroq example_adapters (js ''hi'') 50 =
        Some (Inl (Error (js ''Groq API Error: rate limit'')))"
    "callGemini example_adapters (js ''hi'') 50 = Some (Inr (js ''from gemini''))"
    "callGemini example_adapters_groq_up (js ''hi'') 50 = Some (Inr (js ''from gemini''))"
    "callGroq example_adapters_groq_up (js ''hi'') 50 = Some (Inr (js ''from groq''))"
    by (simp_all add: example_adapters_def example_adapters_groq_up_def)
  from C1_callAI_fallback [OF example_callAI_run]
  have "distinct (attempts [Attempting (js ''groq''),
      Failed (js ''groq'') (js ''Groq API Error: rate limit''), Attempting (js ''gemini'')])"
    by blast
  then have "attempts [Attempting (js ''groq''),
      Failed (js ''groq'') (js ''Groq API Error: rate limit''), Attempting (js ''gemini'')] =
      [js ''groq'', js ''gemini'']"
    by simp
  with example_callAI_run example_callAI_run_no_key example_callAI_run_all_down keys calls
  show ?thesis by simp
qed

subsection \<open>HuggingFace adapter\<close>

lemma callHuggingFace_loading_step:
  assumes "truthy (HUGGINGFACE_API_KEY e)"
    and "modelLoading (net (hf_requests st @ [(prompt, maxTokens)]))"
  shows "callHuggingFace e net prompt maxTokens st =
         callHuggingFace e net prompt maxTokens
           (st\<lparr>hf_requests := hf_requests st @ [(prompt, maxTokens)],
               hf_waited := hf_waited st + 20000\<rparr>)"
  using assms
  by (subst callHuggingFace.simps)
     (auto simp: modelLoading_def Let_def split: hf_response.splits option.splits)

lemma callHuggingFace_final_step:
  assumes "truthy (HUGGINGFACE_API_KEY e)"
    and "\<not> modelLoading (net (hf_requests st @ [(prompt, maxTokens)]))"
  shows "\<exists>res. callHuggingFace e net prompt maxTokens st =
           Some (st\<lparr>hf_requests := hf_requests st @ [(prompt, maxTokens)]\<rparr>, res) \<and>
         callHuggingFace e (\<lambda>h. net (hf_requests st @ [(prompt, maxTokens)])) prompt maxTokens hf_init =
           Some (\<lparr>hf_requests = [(prompt, maxTokens)], hf_waited = 0\<rparr>, res)"
  using assms
  apply (subst callHuggingFace.simps)
  apply (subst (2) callHuggingFace.simps)
  apply (auto simp: modelLoading_def Let_def hf_init_def split: hf_response.splits option.splits list.splits hf_data.splits)
  done

lemma callHuggingFace_retries:
  assumes key: "truthy (HUGGINGFACE_API_KEY e)"
    and loading: "\<forall>i<k. modelLoading (net (hf_requests st @ replicate (Suc i) (prompt, maxTokens)))"
    and final: "\<not> modelLoading (net (hf_requests st @ replicate (Suc k) (prompt, maxTokens)))"
  shows "\<exists>res. callHuggingFace e net prompt maxTokens st =
           Some (st\<lparr>hf_requests := hf_requests st @ replicate (Suc k) (prompt, maxTokens),
                  hf_waited := hf_waited st + 20000 * k\<rparr>, res) \<and>
         callHuggingFace e (\<lambda>h. net (hf_requests st @ replicate (Suc k) (prompt, maxTokens)))
             prompt maxTokens hf_init =
           Some (\<lparr>hf_requests = [(prompt, maxTokens)], hf_waited = 0\<rparr>, res)"
  using loading final
proof (induction k arbitrary: st)
  case 0
  then have "\<not> modelLoading (net (hf_requests st @ [(prompt, maxTokens)]))" by simp
  from callHuggingFace_final_step [where net = net and st = st, OF key this] show ?case by simp
next
  case (Suc k)
  let ?st = "st\<lparr>hf_requests := hf_requests st @ [(prompt, maxTokens)],
                hf_waited := hf_waited st + 20000\<rparr>"
  from Suc.prems(1) have "modelLoading (net (hf_requests st @ replicate (Suc 0) (prompt, maxTokens)))"
    by blast
  then have first: "modelLoading (net (hf_requests st @ [(prompt, maxTokens)]))" by simp
  have "\<forall>i<k. modelLoading (net (hf_requests ?st @ replicate (Suc i) (prompt, maxTokens)))"
  proof (intro allI impI)
    fix i assume "i < k"
    then have "Suc i < Suc k" by simp
    with Suc.prems(1) have "modelLoading (net (hf_requests st @ replicate (Suc (Suc i)) (prompt, maxTokens)))"
      by blast
    then show "modelLoading (net (hf_requests ?st @ replicate (Suc i) (prompt, maxTokens)))"
      by simp
  qed
  moreover from Suc.prems(2)
  have "\<not> modelLoading (net (hf_requests ?st @ replicate (Suc k) (prompt, maxTokens)))"
    by simp
  ultimately have "\<exists>res. callHuggingFace e net prompt maxTokens ?st =
           Some (?st\<lparr>hf_requests := hf_requests ?st @ replicate (Suc k) (prompt, maxTokens),
                  hf_waited := hf_waited ?st + 20000 * k\<rparr>, res) \<and>
         callHuggingFace e (\<lambda>h. net (hf_requests ?st @ replicate (Suc k) (prompt, maxTokens)))
             prompt maxTokens hf_init =
           Some (\<lparr>hf_requests = [(prompt, maxTokens)], hf_waited = 0\<rparr>, res)"
    by (rule Suc.IH)
  with callHuggingFace_loading_step [where net = net and st = st, OF key first] show ?case
    by (simp add: algebra_simps)
qed

lemma callHuggingFace_never_returns:
  assumes key: "truthy (HUGGINGFACE_API_KEY e)"
    and loading: "\<forall>h. modelLoading (net h)"
  shows "callHuggingFace e net prompt maxTokens st = None"
proof (rule ccontr)
  assume "callHuggingFace e net prompt maxTokens st \<noteq> None"
  then obtain y where y: "callHuggingFace e net prompt maxTokens st = Some y" by blast
  have "\<not> (truthy (HUGGINGFACE_API_KEY e) \<and> (\<forall>h. modelLoading (net h)))"
  proof (rule callHuggingFace.raw_induct [where P = "\<lambda>e net prompt maxTokens st y.
          \<not> (truthy (HUGGINGFACE_API_KEY e) \<and> (\<forall>h. modelLoading (net h)))", OF _ y], goal_cases)
    case (1 f e' net' p' m' st' ea)
    show ?case
    proof
      assume A: "truthy (HUGGINGFACE_API_KEY e') \<and> (\<forall>h. modelLoading (net' h))"
      then have L: "modelLoading (net' (hf_requests st' @ [(p', m')]))"
        and K: "truthy (HUGGINGFACE_API_KEY e')" by blast+
      from L K 1(2) have "f e' net' p' m'
          (st'\<lparr>hf_requests := hf_requests st' @ [(p', m')], hf_waited := hf_waited st' + 20000\<rparr>)
          = Some ea"
        by (auto simp: modelLoading_def Let_def split: hf_response.splits option.splits if_splits)
      from 1(1) [OF this] A show False by blast
    qed
  qed
  with key loading show False by simp
qed

lemma example_net_loading:
  "modelLoading (example_net [r1])" "modelLoading (example_net [r1, r2])"
  "\<not> modelLoading (example_net [r1, r2, r3])"
  by (simp_all add: example_net_def modelLoading_def js_def)

lemma example_key: "truthy (HUGGINGFACE_API_KEY example_env)"
  by (simp add: example_env_def truthy_def js_def)

text \<open>
  Claim C2 as stated: on a loading response the adapter waits 20 seconds and retries the
  identical request exactly once more, never more than one automatic retry per
  invocation. It fails: with two loading responses in a row one invocation sends three
  requests, that is two automatic retries, and waits 40 seconds.
\<close>

theorem C2_single_retry_counterexample:
  "callHuggingFace example_env example_net (js ''hi'') 50 hf_init =
     Some (\<lparr>hf_requests = [(js ''hi'', 50), (js ''hi'', 50), (js ''hi'', 50)],
            hf_waited = 40000\<rparr>, Inr (js ''ready''))"
proof -
  have trimmed: "js_trim (js '' ready '') = js ''ready''"
    by (simp add: js_trim_def js_def isWhiteSpace_def)
  have nonempty: "js '' ready '' \<noteq> []"
    by (simp add: js_def)
  have third: "callHuggingFace example_env example_net (js ''hi'') 50
      \<lparr>hf_requests = [(js ''hi'', 50), (js ''hi'', 50)], hf_waited = 40000\<rparr> =
     Some (\<lparr>hf_requests = [(js ''hi'', 50), (js ''hi'', 50), (js ''hi'', 50)],
            hf_waited = 40000\<rparr>, Inr (js ''ready''))"
    using example_key nonempty
    by (subst callHuggingFace.simps) (simp add: example_net_def trimmed Let_def)
  have second: "callHuggingFace example_env example_net (js ''hi'') 50
      \<lparr>hf_requests = [(js ''hi'', 50)], hf_waited = 20000\<rparr> =
     callHuggingFace example_env example_net (js ''hi'') 50
      \<lparr>hf_requests = [(js ''hi'', 50), (js ''hi'', 50)], hf_waited = 40000\<rparr>"
    using callHuggingFace_loading_step
      [where net = example_net and st = "\<lparr>hf_requests = [(js ''hi'', 50)], hf_waited = 20000\<rparr>",
        OF example_key]
    by (simp add: example_net_loading)
  have first: "callHuggingFace example_env example_net (js ''hi'') 50 hf_init =
     callHuggingFace example_env example_net (js ''hi'') 50
      \<lparr>hf_requests = [(js ''hi'', 50)], hf_waited = 20000\<rparr>"
    using callHuggingFace_loading_step
      [where net = example_net and st = hf_init, OF example_key]
    by (simp add: example_net_loading hf_init_def)
  from first second third show ?thesis by simp
qed

text \<open>
  Claim C2, amended. Each time the adapter receives a loading response it waits 20
  seconds and calls itself again with the identical request, without any bound on the
  number of retries: after k loading responses in a row followed by a response that is
  not a loading response, one invocation has sent k + 1 identical requests (k automatic
  retries), has waited k times 20000 milliseconds, and returns what the adapter returns
  for that last response alone; and while every response is a loading response the
  invocation never returns.
\<close>

theorem C2_callHuggingFace_retries_while_loading:
  assumes "truthy (HUGGINGFACE_API_KEY e)"
  shows "((\<forall>i<k. modelLoading (net (replicate (Suc i) (prompt, maxTokens)))) \<longrightarrow>
          \<not> modelLoading (net (replicate (Suc k) (prompt, maxTokens))) \<longrightarrow>
          (\<exists>res. callHuggingFace e net prompt maxTokens hf_init =
             Some (\<lparr>hf_requests = replicate (Suc k) (prompt, maxTokens),
                    hf_waited = 20000 * k\<rparr>, res) \<and>
           callHuggingFace e (\<lambda>h. net (replicate (Suc k) (prompt, maxTokens)))
               prompt maxTokens hf_init =
             Some (\<lparr>hf_requests = [(prompt, maxTokens)], hf_waited = 0\<rparr>, res)))
       \<and> ((\<forall>h. modelLoading (net h)) \<longrightarrow>
          callHuggingFace e net prompt maxTokens hf_init = None)"
proof (intro conjI impI)
  assume "\<forall>i<k. modelLoading (net (replicate (Suc i) (prompt, maxTokens)))"
    and "\<not> modelLoading (net (replicate (Suc k) (prompt, maxTokens)))"
  with callHuggingFace_retries [where net = net and st = hf_init and k = k
      and prompt = prompt and maxTokens = maxTokens, OF assms]
  show "\<exists>res. callHuggingFace e net prompt maxTokens hf_init =
             Some (\<lparr>hf_requests = replicate (Suc k) (prompt, maxTokens),
                    hf_waited = 20000 * k\<rparr>, res) \<and>
           callHuggingFace e (\<lambda>h. net (replicate (Suc k) (prompt, maxTokens)))
               prompt maxTokens hf_init =
             Some (\<lparr>hf_requests = [(prompt, maxTokens)], hf_waited = 0\<rparr>, res)"
    by (simp add: hf_init_def)
next
  assume "\<forall>h. modelLoading (net h)"
  with assms show "callHuggingFace e net prompt maxTokens hf_init = None"
    by (rule callHuggingFace_never_returns)
qed

theorem C2_callHuggingFace_retries_while_loading_witness:
  "truthy (HUGGINGFACE_API_KEY example_env) \<and>
   modelLoading (example_net [(js ''hi'', 50)]) \<and>
   modelLoading (example_net [(js ''hi'', 50), (js ''hi'', 50)]) \<and>
   \<not> modelLoading (example_net [(js ''hi'', 50), (js ''hi'', 50), (js ''hi'', 50)]) \<and>
   (\<exists>res. callHuggingFace example_env example_net (js ''hi'') 50 hf_init =
      Some (\<lparr>hf_requests = [(js ''hi'', 50), (js ''hi'', 50), (js ''hi'', 50)],
             hf_waited = 40000\<rparr>, res)) \<and>
   callHuggingFace example_env example_net_forever (js ''hi'') 50 hf_init = None"
proof -
  have l: "\<forall>i<Suc (Suc 0). modelLoading (example_net (replicate (Suc i) (js ''hi'', 50)))"
    by (simp add: less_Suc_eq example_net_loading)
  have f: "\<not> modelLoading (example_net (replicate (Suc (Suc (Suc 0))) (js ''hi'', 50)))"
    by (simp add: example_net_loading)
  have g: "\<forall>h. modelLoading (example_net_forever h)"
    by (simp add: example_net_forever_def modelLoading_def js_def)
  from C2_callHuggingFace_retries_while_loading
    [OF example_key, of "Suc (Suc 0)" example_net "js ''hi''" 50] l f
  have "\<exists>res. callHuggingFace example_env example_net (js ''hi'') 50 hf_init =
      Some (\<lparr>hf_requests = [(js ''hi'', 50), (js ''hi'', 50), (js ''hi'', 50)],
             hf_waited = 40000\<rparr>, res)"
    by auto
  moreover from C2_callHuggingFace_retries_while_loading
    [OF example_key, of 0 example_net_forever "js ''hi''" 50] g
  have "callHuggingFace example_env example_net_forever (js ''hi'') 50 hf_init = None"
    by blast
  ultimately show ?thesis
    using example_key example_net_loading by blast
qed

subsection \<open>Feasibility check\<close>

lemma foldl_load: "foldl (\<lambda>sum d. sum + load d) a ls = a + sum_list (map load ls)"
  by (induction ls arbitrary: a) simp_all

lemma round_tenth_le_6:
  fixes T :: nat
  shows "Math_round (of_nat T / 7 * 10) / 10 \<le> 6 \<longleftrightarrow> (of_nat T :: rat) / 7 \<le> 6"
proof -
  have "Math_round (of_nat T / 7 * 10) / 10 \<le> 6 \<longleftrightarrow> \<lfloor>(of_nat T :: rat) / 7 * 10 + 1 / 2\<rfloor> \<le> 60"
    by (simp add: Math_round_def)
  also have "\<dots> \<longleftrightarrow> (of_nat T :: rat) / 7 * 10 + 1 / 2 < 61"
    by (simp add: floor_le_iff)
  also have "\<dots> \<longleftrightarrow> (of_nat (20 * T) :: rat) < of_nat 847"
    by (simp add: field_simps)
  also have "\<dots> \<longleftrightarrow> 20 * T < 847" by (simp only: of_nat_less_iff)
  also have "\<dots> \<longleftrightarrow> T \<le> 42" by arith
  also have "\<dots> \<longleftrightarrow> (of_nat T :: rat) \<le> of_nat 42" by (simp only: of_nat_le_iff)
  also have "\<dots> \<longleftrightarrow> (of_nat T :: rat) / 7 \<le> 6" by (simp add: field_simps)
  finally show ?thesis .
qed

lemma round_tenth_error:
  "\<bar>Math_round (x * 10) / 10 - x\<bar> \<le> 1 / 20"
proof -
  define n :: rat where "n = of_int \<lfloor>x * 10 + 1 / 2\<rfloor>"
  have "n \<le> x * 10 + 1 / 2" and "x * 10 + 1 / 2 < n + 1"
    unfolding n_def by linarith+
  then have "\<bar>n / 10 - x\<bar> \<le> 1 / 20" by linarith
  then show ?thesis by (simp add: Math_round_def n_def)
qed

lemma length_filter_disjoint:
  "(\<And>x. x \<in> set xs \<Longrightarrow> \<not> (P x \<and> Q x)) \<Longrightarrow>
   length (filter P xs) + length (filter Q xs) = length (filter (\<lambda>x. P x \<or> Q x) xs)"
  by (induction xs) auto

lemma sum_group_lengths:
  "distinct ds \<Longrightarrow>
   sum_list (map (\<lambda>d. length (filter (\<lambda>t. f t = d) ts)) ds) =
   length (filter (\<lambda>t. f t \<in> set ds) ts)"
proof (induction ds)
  case Nil
  then show ?case by simp
next
  case (Cons d ds)
  then have "length (filter (\<lambda>t. f t = d) ts) + length (filter (\<lambda>t. f t \<in> set ds) ts) =
      length (filter (\<lambda>t. f t = d \<or> f t \<in> set ds) ts)"
    by (intro length_filter_disjoint) auto
  with Cons show ?case by simp
qed

lemma distinct_days: "distinct days"
  by (simp add: days_def js_def)

lemma dailyBreakdown_eq:
  "dailyBreakdown (performRuleBasedChecks p) =
     map (\<lambda>d. \<lparr>ld_day = d,
               taskCount = length (filter (\<lambda>t. day t = d) (dailyTasks p)),
               load = length (filter (\<lambda>t. day t = d) (dailyTasks p)) * 2,
               label = (let l = length (filter (\<lambda>t. day t = d) (dailyTasks p)) * 2 in
                        if l = 0 then js ''Free'' else if l \<le> 3 then js ''Light''
                        else if l \<ge> 7 then js ''Heavy'' else js ''Balanced'')\<rparr>) days"
  by (simp add: performRuleBasedChecks_def calculateDailyLoads_def groupTasksByDay_def Let_def
      comp_def)

lemma sum_loads:
  "sum_list (map load (dailyBreakdown (performRuleBasedChecks p))) =
     2 * length (filter (\<lambda>t. day t \<in> set days) (dailyTasks p))"
proof -
  have "sum_list (map load (dailyBreakdown (performRuleBasedChecks p))) =
      sum_list (map (\<lambda>d. length (filter (\<lambda>t. day t = d) (dailyTasks p)) * 2) days)"
    by (simp add: dailyBreakdown_eq comp_def)
  also have "\<dots> = sum_list (map (\<lambda>d. length (filter (\<lambda>t. day t = d) (dailyTasks p))) days) * 2"
    by (simp add: sum_list_mult_const)
  also have "\<dots> = 2 * length (filter (\<lambda>t. day t \<in> set days) (dailyTasks p))"
    using sum_group_lengths [OF distinct_days, of day "dailyTasks p"] by simp
  finally show ?thesis .
qed

lemma totalLoad_eq:
  "totalLoad (performRuleBasedChecks p) =
     sum_list (map load (dailyBreakdown (performRuleBasedChecks p)))"
  by (simp add: performRuleBasedChecks_def Let_def foldl_load)

lemma analysis_fields:
  "averageLoad (performRuleBasedChecks p) =
     Math_round (of_nat (totalLoad (performRuleBasedChecks p)) / 7 * 10) / 10"
  "heavyDays (performRuleBasedChecks p) =
     map ld_day (filter (\<lambda>d. load d \<ge> 7) (dailyBreakdown (performRuleBasedChecks p)))"
  "emptyDays (performRuleBasedChecks p) =
     map ld_day (filter (\<lambda>d. load d = 0) (dailyBreakdown (performRuleBasedChecks p)))"
  "feasible (performRuleBasedChecks p) \<longleftrightarrow>
     (of_nat (totalLoad (performRuleBasedChecks p)) :: rat) / 7 \<le> 6 \<and>
     length (heavyDays (performRuleBasedChecks p)) \<le> 2"
  "totalTasks (performRuleBasedChecks p) = length (dailyTasks p)"
  by (simp_all add: performRuleBasedChecks_def Let_def)

text \<open>
  Claim C3 as stated: the reported \<open>averageLoad\<close> equals the sum of the computed daily
  loads divided by 7. It fails: for one task on Monday the sum of the loads is 2, the sum
  divided by 7 is 2/7, and the reported \<open>averageLoad\<close> is 0.3.
\<close>

theorem C3_averageLoad_counterexample:
  "averageLoad (performRuleBasedChecks example_plan) = 3 / 10 \<and>
   (of_nat (sum_list (map load (dailyBreakdown (performRuleBasedChecks example_plan)))) :: rat) / 7
     = 2 / 7 \<and>
   averageLoad (performRuleBasedChecks example_plan) \<noteq>
     of_nat (sum_list (map load (dailyBreakdown (performRuleBasedChecks example_plan)))) / 7"
proof -
  have avg: "averageLoad (performRuleBasedChecks example_plan) = 3 / 10"
    by (simp add: performRuleBasedChecks_def example_plan_def groupTasksByDay_def days_def
        calculateDailyLoads_def Math_round_def js_def Let_def floor_eq_iff)
  have total: "(of_nat (sum_list (map load (dailyBreakdown (performRuleBasedChecks example_plan))))
      :: rat) / 7 = 2 / 7"
    by (simp add: performRuleBasedChecks_def example_plan_def groupTasksByDay_def days_def
        calculateDailyLoads_def js_def Let_def)
  show ?thesis unfolding avg total by simp
qed

text \<open>
  Claim C3, amended. For every plan the reported \<open>averageLoad\<close> is the sum of the computed
  daily loads divided by 7 and rounded to one decimal place (\<open>Math.round(avgLoad * 10) / 10\<close>),
  so it is within 0.05 of that quotient; \<open>feasible\<close> is true if and only if the unrounded
  quotient is at most 6 and at most two days are heavy (load \<ge> 7), and the reported rounded
  \<open>averageLoad\<close> gives the same verdict.
\<close>

theorem C3_averageLoad_rounded_and_feasible:
  "averageLoad (performRuleBasedChecks p) =
     Math_round (of_nat (sum_list (map load (dailyBreakdown (performRuleBasedChecks p)))) / 7 * 10) / 10
   \<and> \<bar>averageLoad (performRuleBasedChecks p) -
        of_nat (sum_list (map load (dailyBreakdown (performRuleBasedChecks p)))) / 7\<bar> \<le> 1 / 20
   \<and> (feasible (performRuleBasedChecks p) \<longleftrightarrow>
        (of_nat (sum_list (map load (dailyBreakdown (performRuleBasedChecks p)))) :: rat) / 7 \<le> 6 \<and>
        length (filter (\<lambda>d. load d \<ge> 7) (dailyBreakdown (performRuleBasedChecks p))) \<le> 2)
   \<and> (feasible (performRuleBasedChecks p) \<longleftrightarrow>
        averageLoad (performRuleBasedChecks p) \<le> 6 \<and>
        length (filter (\<lambda>d. load d \<ge> 7) (dailyBreakdown (performRuleBasedChecks p))) \<le> 2)
   \<and> heavyDays (performRuleBasedChecks p) =
        map ld_day (filter (\<lambda>d. load d \<ge> 7) (dailyBreakdown (performRuleBasedChecks p)))"
proof -
  let ?a = "performRuleBasedChecks p"
  let ?S = "sum_list (map load (dailyBreakdown ?a))"
  have avg: "averageLoad ?a = Math_round (of_nat ?S / 7 * 10) / 10"
    by (simp add: analysis_fields(1) totalLoad_eq)
  have err: "\<bar>averageLoad ?a - of_nat ?S / 7\<bar> \<le> 1 / 20"
    unfolding avg by (rule round_tenth_error)
  have heavy: "heavyDays ?a = map ld_day (filter (\<lambda>d. load d \<ge> 7) (dailyBreakdown ?a))"
    by (rule analysis_fields(2))
  have feas: "feasible ?a \<longleftrightarrow>
      (of_nat ?S :: rat) / 7 \<le> 6 \<and> length (filter (\<lambda>d. load d \<ge> 7) (dailyBreakdown ?a)) \<le> 2"
    by (simp add: analysis_fields(4) totalLoad_eq heavy)
  have feas': "feasible ?a \<longleftrightarrow>
      averageLoad ?a \<le> 6 \<and> length (filter (\<lambda>d. load d \<ge> 7) (dailyBreakdown ?a)) \<le> 2"
    unfolding feas avg by (simp only: round_tenth_le_6)
  from avg err feas feas' heavy show ?thesis by blast
qed

lemma groupTasksByDay_canonical:
  "groupTasksByDay (filter (\<lambda>t. day t \<in> set days) ts) = groupTasksByDay ts"
  by (auto simp: groupTasksByDay_def intro: filter_cong)

lemma performRuleBasedChecks_canonical:
  "performRuleBasedChecks (p\<lparr>dailyTasks := filter (\<lambda>t. day t \<in> set days) (dailyTasks p)\<rparr>) =
     (performRuleBasedChecks p)\<lparr>totalTasks := length (filter (\<lambda>t. day t \<in> set days) (dailyTasks p))\<rparr>"
  by (simp add: performRuleBasedChecks_def groupTasksByDay_canonical Let_def)

text \<open>
  Claim C10. Tasks whose \<open>day\<close> is not one of the seven names Monday to Sunday change
  nothing in the per-day loads, \<open>totalLoad\<close>, \<open>averageLoad\<close>, the heavy days and the
  empty days: the check gives the same values as on the plan without them. \<open>totalTasks\<close>
  still counts them, \<open>totalLoad\<close> is twice the number of tasks with a canonical day, and
  so \<open>totalLoad\<close> is strictly less than twice \<open>totalTasks\<close> as soon as one task has another
  day.
\<close>

theorem C10_noncanonical_days_ignored:
  "dailyBreakdown (performRuleBasedChecks (p\<lparr>dailyTasks := filter (\<lambda>t. day t \<in> set days) (dailyTasks p)\<rparr>))
     = dailyBreakdown (performRuleBasedChecks p)
   \<and> totalLoad (performRuleBasedChecks (p\<lparr>dailyTasks := filter (\<lambda>t. day t \<in> set days) (dailyTasks p)\<rparr>))
     = totalLoad (performRuleBasedChecks p)
   \<and> averageLoad (performRuleBasedChecks (p\<lparr>dailyTasks := filter (\<lambda>t. day t \<in> set days) (dailyTasks p)\<rparr>))
     = averageLoad (performRuleBasedChecks p)
   \<and> heavyDays (performRuleBasedChecks (p\<lparr>dailyTasks := filter (\<lambda>t. day t \<in> set days) (dailyTasks p)\<rparr>))
     = heavyDays (performRuleBasedChecks p)
   \<and> emptyDays (performRuleBasedChecks (p\<lparr>dailyTasks := filter (\<lambda>t. day t \<in> set days) (dailyTasks p)\<rparr>))
     = emptyDays (performRuleBasedChecks p)
   \<and> totalTasks (performRuleBasedChecks p) = length (dailyTasks p)
   \<and> totalLoad (performRuleBasedChecks p) = 2 * length (filter (\<lambda>t. day t \<in> set days) (dailyTasks p))
   \<and> ((\<exists>t \<in> set (dailyTasks p). day t \<notin> set days) \<longrightarrow>
        totalLoad (performRuleBasedChecks p) < 2 * totalTasks (performRuleBasedChecks p))"
proof -
  have total: "totalLoad (performRuleBasedChecks p) =
      2 * length (filter (\<lambda>t. day t \<in> set days) (dailyTasks p))"
    by (simp add: totalLoad_eq sum_loads)
  have tasks: "totalTasks (performRuleBasedChecks p) = length (dailyTasks p)"
    by (rule analysis_fields(5))
  have less: "totalLoad (performRuleBasedChecks p) < 2 * totalTasks (performRuleBasedChecks p)"
    if "\<exists>t \<in> set (dailyTasks p). day t \<notin> set days"
  proof -
    from that obtain t where "t \<in> set (dailyTasks p)" "day t \<notin> set days" by blast
    then have "length (filter (\<lambda>t. day t \<in> set days) (dailyTasks p)) < length (dailyTasks p)"
      by (intro length_filter_less [of t]) auto
    with total tasks show ?thesis by simp
  qed
  from total tasks less show ?thesis
    by (simp add: performRuleBasedChecks_canonical)
qed

theorem C10_noncanonical_days_ignored_witness:
  "(\<exists>t \<in> set (dailyTasks example_plan2). day t \<notin> set days) \<and>
   totalTasks (performRuleBasedChecks example_plan2) = 2 \<and>
   totalLoad (performRuleBasedChecks example_plan2) = 2 \<and>
   totalLoad (performRuleBasedChecks example_plan2) < 2 * totalTasks (performRuleBasedChecks example_plan2)"
proof -
  have ex: "\<exists>t \<in> set (dailyTasks example_plan2). day t \<notin> set days"
    by (simp add: example_plan2_def days_def js_def)
  have "filter (\<lambda>t. day t \<in> set days) (dailyTasks example_plan2) =
      [\<lparr>taskId = js ''t1'', day = js ''Monday'', status = js ''pending''\<rparr>]"
    by (simp add: example_plan2_def days_def js_def)
  with C10_noncanonical_days_ignored [of example_plan2] ex show ?thesis
    by (simp add: example_plan2_def)
qed

subsection \<open>Response parsing: split and join\<close>




lemma trim_Nil [simp]: "js_trim [] = []"
  by (simp add: js_trim_def)


subsection \<open>Section extraction\<close>





































subsection \<open>Task extraction\<close>






end
